theory Spec2Isabelle
  imports Complex_Main "HOL-Library.Word" "HOL-Library.Multiset"
begin

section \<open>JavaScript values\<close>

text \<open>
  A JavaScript string is a sequence of UTF-16 code units. The separators of the tag
  parser and the white space removed by \<open>trim\<close> lie outside ASCII, so strings are
  lists of 16-bit words; \<open>js\<close> embeds an ASCII literal.
\<close>

type_synonym jsstring = "16 word list"

definition js :: "string \<Rightarrow> jsstring" where
  "js s = map of_char s"

text \<open>
  A JavaScript number: a finite value, one of the two infinities, or NaN. Every finite
  double is a rational, the handlers only compare numbers with integer constants and
  pass them through, so the finite values are embedded in the reals.
\<close>

datatype jsnum = NaN | NegInf | Fin real | PosInf

text \<open>The values a handler puts into a response object.\<close>

datatype jsval =
    Undefined
  | Null
  | Bool bool
  | Num jsnum
  | Str jsstring
  | Arr "jsval list"
  | Obj "(string \<times> jsval) list"

text \<open>Property read \<open>o.k\<close>: the value under the key, \<open>undefined\<close> when absent.\<close>

definition field :: "string \<Rightarrow> (string \<times> jsval) list \<Rightarrow> jsval" where
  "field k kvs = (case map_of kvs k of None \<Rightarrow> Undefined | Some v \<Rightarrow> v)"

definition keys :: "(string \<times> jsval) list \<Rightarrow> string list" where
  "keys kvs = map fst kvs"

text \<open>
  \<open>String.prototype.trim\<close> removes the code units of WhiteSpace and LineTerminator
  from both ends.
\<close>

definition is_js_space :: "16 word \<Rightarrow> bool" where
  "is_js_space u \<longleftrightarrow>
     u = 0x0009 \<or> u = 0x000A \<or> u = 0x000B \<or> u = 0x000C \<or> u = 0x000D \<or> u = 0x0020 \<or>
     u = 0x00A0 \<or> u = 0x1680 \<or> (0x2000 \<le> u \<and> u \<le> 0x200A) \<or> u = 0x2028 \<or>
     u = 0x2029 \<or> u = 0x202F \<or> u = 0x205F \<or> u = 0x3000 \<or> u = 0xFEFF"

definition trim :: "jsstring \<Rightarrow> jsstring" where
  "trim s = rev (dropWhile is_js_space (rev (dropWhile is_js_space s)))"

text \<open>\<open>x || ''\<close> on an optional string field: \<open>undefined\<close> and \<open>''\<close> are falsy.\<close>

definition or_empty :: "jsstring option \<Rightarrow> jsstring" where
  "or_empty x = (case x of None \<Rightarrow> [] | Some s \<Rightarrow> if s = [] then [] else s)"

text \<open>\<open>xs[i]\<close> on an array of numbers: \<open>undefined\<close> out of range.\<close>

definition index :: "jsnum list \<Rightarrow> nat \<Rightarrow> jsval" where
  "index xs i = (if i < length xs then Num (xs ! i) else Undefined)"

section \<open>The Club collection\<close>

type_synonym objectid = "96 word"

text \<open>
  A Club document, with the fields of the schema in the API reference. Optional fields
  are \<open>None\<close> when the document does not have them. \<open>doc_id\<close> is \<open>_id\<close> and
  \<open>version\<close> is \<open>__v\<close>; \<open>coordinates\<close> is stored as [longitude, latitude]; the
  two timestamps are milliseconds.
\<close>

record club =
  doc_id :: objectid
  name :: jsstring
  school :: jsstring
  province :: jsstring
  city :: "jsstring option"
  coordinates :: "jsnum list"
  description :: "jsstring option"
  shortDescription :: "jsstring option"
  tags :: "jsstring list option"
  logo :: "jsstring option"
  website :: "jsstring option"
  contact :: "(string \<times> jsstring) list option"
  sourceSubmission :: "objectid option"
  verifiedBy :: "jsstring option"
  version :: "nat option"
  createdAt :: int
  updatedAt :: int

text \<open>
  What the handlers use and the repository does not define: the regular-expression
  engine behind \<open>new RegExp(p, 'i')\<close> and the store's \<open>$regex\<close> test (\<open>None\<close>: the
  pattern is rejected and the call throws), the driver's cast of a request string to an
  ObjectId (\<open>None\<close>: the cast throws) and the rendering of an ObjectId as a string.
\<close>

record runtime =
  regexp_i :: "jsstring \<Rightarrow> (jsstring \<Rightarrow> bool) option"
  castObjectId :: "jsstring \<Rightarrow> objectid option"
  oidToString :: "objectid \<Rightarrow> jsstring"

text \<open>The authoritative store as the routes see it: reachable or not, and its Club documents.\<close>

record store =
  reachable :: bool
  clubs :: "club list"

datatype thrown = SyntaxError | CastError | StoreUnreachable

record response =
  status :: nat
  body :: "(string \<times> jsval) list"

subsection \<open>Queries\<close>

text \<open>The two queries the list route builds: \<open>{}\<close>, or \<open>$or\<close> of one regex on four fields.\<close>

datatype query = MatchAll | OrRegex "jsstring \<Rightarrow> bool"

text \<open>A regex condition on a field the document does not have does not match.\<close>

definition matches :: "query \<Rightarrow> club \<Rightarrow> bool" where
  "matches q c =
     (case q of
        MatchAll \<Rightarrow> True
      | OrRegex m \<Rightarrow>
          m (name c) \<or> m (school c) \<or> m (province c) \<or>
          (case city c of None \<Rightarrow> False | Some s \<Rightarrow> m s))"

text \<open>\<open>.select('-__v -sourceSubmission -verifiedBy')\<close>\<close>

definition select_public :: "club \<Rightarrow> club" where
  "select_public c = c\<lparr>sourceSubmission := None, verifiedBy := None, version := None\<rparr>"

subsection \<open>Club.find and Club.findById\<close>

text \<open>
  \<open>.sort({ createdAt: -1 })\<close>: newest first. Documents with equal \<open>createdAt\<close> keep
  the order the store holds them in.
\<close>

definition sort_newest_first :: "club list \<Rightarrow> club list" where
  "sort_newest_first cs = sort_key (\<lambda>c. - createdAt c) cs"

text \<open>\<open>.limit(n)\<close>; \<open>.limit(undefined)\<close> sets no limit.\<close>

definition limit :: "nat option \<Rightarrow> club list \<Rightarrow> club list" where
  "limit n cs = (case n of None \<Rightarrow> cs | Some k \<Rightarrow> take k cs)"

text \<open>
  \<open>await Club.find(query).select(...).sort(...).limit(...)\<close>: throws when the store
  cannot be reached, otherwise the matching documents, sorted, cut and projected.
\<close>

definition find :: "store \<Rightarrow> query \<Rightarrow> nat option \<Rightarrow> thrown + club list" where
  "find st q n =
     (if \<not> reachable st then Inl StoreUnreachable
      else Inr (map select_public (limit n (sort_newest_first (filter (matches q) (clubs st))))))"

text \<open>
  \<open>await Club.findById(id).select(...)\<close>: throws when the store cannot be reached or
  the id cannot be cast to an ObjectId; otherwise the document with that \<open>_id\<close>, or null.
\<close>

definition findById :: "runtime \<Rightarrow> store \<Rightarrow> jsstring \<Rightarrow> thrown + club option" where
  "findById rt st i =
     (if \<not> reachable st then Inl StoreUnreachable
      else case castObjectId rt i of
             None \<Rightarrow> Inl CastError
           | Some oid \<Rightarrow> Inr (map_option select_public (List.find (\<lambda>c. doc_id c = oid) (clubs st))))"

subsection \<open>GET /api/clubs\<close>

text \<open>
  The query parameter \<open>search\<close> is an optional string (\<open>None\<close> when the request
  has none). \<open>search && search.trim()\<close> guards the regex; \<open>''\<close> and a blank
  string take the else branch and leave the query \<open>{}\<close>.
\<close>

definition build_query :: "runtime \<Rightarrow> jsstring option \<Rightarrow> thrown + query" where
  "build_query rt search =
     (case search of
        None \<Rightarrow> Inr MatchAll
      | Some s \<Rightarrow>
          if s \<noteq> [] \<and> trim s \<noteq> [] then
            (case regexp_i rt (trim s) of
               None \<Rightarrow> Inl SyntaxError
             | Some searchRegex \<Rightarrow> Inr (OrRegex searchRegex))
          else Inr MatchAll)"

text \<open>\<open>search ? 20 : undefined\<close>: any non-empty string is truthy, a blank one too.\<close>

definition search_limit :: "jsstring option \<Rightarrow> nat option" where
  "search_limit search =
     (case search of None \<Rightarrow> None | Some s \<Rightarrow> if s \<noteq> [] then Some 20 else None)"

text \<open>The virtual \<open>club.id\<close> of a document is its \<open>_id\<close> as a string.\<close>

definition club_id :: "runtime \<Rightarrow> club \<Rightarrow> jsstring" where
  "club_id rt c = oidToString rt (doc_id c)"

definition tags_or_empty :: "jsstring list option \<Rightarrow> jsval" where
  "tags_or_empty t = Arr (map Str (case t of None \<Rightarrow> [] | Some ts \<Rightarrow> ts))"

definition contact_or_empty :: "(string \<times> jsstring) list option \<Rightarrow> jsval" where
  "contact_or_empty k = Obj (map (\<lambda>(a, v). (a, Str v)) (case k of None \<Rightarrow> [] | Some kvs \<Rightarrow> kvs))"

definition formattedClubs_entry :: "runtime \<Rightarrow> club \<Rightarrow> (string \<times> jsval) list" where
  "formattedClubs_entry rt club =
     [(''id'', Str (if club_id rt club \<noteq> [] then club_id rt club else oidToString rt (doc_id club))),
      (''name'', Str (name club)),
      (''school'', Str (school club)),
      (''city'', Str (or_empty (city club))),
      (''province'', Str (province club)),
      (''latitude'', index (coordinates club) 1),
      (''longitude'', index (coordinates club) 0),
      (''img_name'', Str (or_empty (logo club))),
      (''short_description'', Str (or_empty (shortDescription club))),
      (''long_description'', Str (or_empty (description club))),
      (''tags'', tags_or_empty (tags club)),
      (''website'', Str (or_empty (website club))),
      (''contact'', contact_or_empty (contact club)),
      (''shortDescription'', Str (or_empty (shortDescription club))),
      (''description'', Str (or_empty (description club))),
      (''coordinates'', Arr (map Num (coordinates club)))]"

text \<open>The body of a catch block: status 500, code SERVER_ERROR and the route's message.\<close>

definition server_error :: "jsstring \<Rightarrow> response" where
  "server_error msg =
     \<lparr>status = 500,
      body = [(''success'', Bool False), (''error'', Str (js ''SERVER_ERROR'')), (''message'', Str msg)]\<rparr>"

definition list_failed_message :: jsstring where
  "list_failed_message = [0x83B7, 0x53D6, 0x793E, 0x56E2, 0x5217, 0x8868, 0x5931, 0x8D25]"

definition get_clubs :: "runtime \<Rightarrow> store \<Rightarrow> jsstring option \<Rightarrow> response" where
  "get_clubs rt st search =
     (case build_query rt search of
        Inl e \<Rightarrow> server_error list_failed_message
      | Inr q \<Rightarrow>
          (case find st q (search_limit search) of
             Inl e \<Rightarrow> server_error list_failed_message
           | Inr cs \<Rightarrow>
               (let formattedClubs = map (formattedClubs_entry rt) cs
                in \<lparr>status = 200,
                    body = [(''success'', Bool True),
                            (''data'', Arr (map Obj formattedClubs)),
                            (''total'', Num (Fin (real (length formattedClubs))))]\<rparr>)))"

subsection \<open>GET /api/clubs/:id\<close>

definition formattedClub :: "runtime \<Rightarrow> club \<Rightarrow> (string \<times> jsval) list" where
  "formattedClub rt club =
     [(''id'', Str (oidToString rt (doc_id club))),
      (''name'', Str (name club)),
      (''school'', Str (school club)),
      (''city'', Str (or_empty (city club))),
      (''province'', Str (province club)),
      (''latitude'', index (coordinates club) 1),
      (''longitude'', index (coordinates club) 0),
      (''img_name'', Str (or_empty (logo club))),
      (''short_description'', Str (or_empty (shortDescription club))),
      (''long_description'', Str (or_empty (description club))),
      (''tags'', tags_or_empty (tags club)),
      (''website'', Str (or_empty (website club))),
      (''contact'', contact_or_empty (contact club))]"

definition not_found_message :: jsstring where
  "not_found_message = [0x672A, 0x627E, 0x5230, 0x8BE5, 0x793E, 0x56E2]"

definition detail_failed_message :: jsstring where
  "detail_failed_message = [0x83B7, 0x53D6, 0x793E, 0x56E2, 0x8BE6, 0x60C5, 0x5931, 0x8D25]"

definition not_found :: response where
  "not_found =
     \<lparr>status = 404,
      body = [(''success'', Bool False), (''error'', Str (js ''NOT_FOUND'')),
              (''message'', Str not_found_message)]\<rparr>"

definition get_club_by_id :: "runtime \<Rightarrow> store \<Rightarrow> jsstring \<Rightarrow> response" where
  "get_club_by_id rt st i =
     (case findById rt st i of
        Inl e \<Rightarrow> server_error detail_failed_message
      | Inr None \<Rightarrow> not_found
      | Inr (Some club) \<Rightarrow>
          \<lparr>status = 200,
           body = [(''success'', Bool True), (''data'', Obj (formattedClub rt club))]\<rparr>)"

section \<open>The submission form\<close>

text \<open>
  The errors the submit handler shows: each constructor stands for one message of the
  script (form incomplete; coordinates not valid numbers; latitude outside -90..90;
  longitude outside -180..180; more than 10 tags).
\<close>

datatype form_error =
    FormInvalid
  | InvalidCoordinates
  | LatitudeOutOfRange
  | LongitudeOutOfRange
  | TooManyTags

text \<open>\<open>x < k\<close> and \<open>x > k\<close> for a number \<open>x\<close> and a finite constant \<open>k\<close>; false on NaN.\<close>

definition num_lt :: "jsnum \<Rightarrow> real \<Rightarrow> bool" where
  "num_lt x k = (case x of NaN \<Rightarrow> False | NegInf \<Rightarrow> True | Fin r \<Rightarrow> r < k | PosInf \<Rightarrow> False)"

definition num_gt :: "jsnum \<Rightarrow> real \<Rightarrow> bool" where
  "num_gt x k = (case x of NaN \<Rightarrow> False | NegInf \<Rightarrow> False | Fin r \<Rightarrow> r > k | PosInf \<Rightarrow> True)"

definition validateCoordinates :: "jsnum \<Rightarrow> jsnum \<Rightarrow> form_error + unit" where
  "validateCoordinates lat lng =
     (if lat = NaN \<or> lng = NaN then Inl InvalidCoordinates
      else if num_lt lat (- 90) \<or> num_gt lat 90 then Inl LatitudeOutOfRange
      else if num_lt lng (- 180) \<or> num_gt lng 180 then Inl LongitudeOutOfRange
      else Inr ())"

text \<open>The separators of the split pattern: comma, fullwidth comma (U+FF0C), line feed.\<close>

definition is_tag_sep :: "16 word \<Rightarrow> bool" where
  "is_tag_sep u \<longleftrightarrow> u = 0x002C \<or> u = 0xFF0C \<or> u = 0x000A"

text \<open>
  \<open>raw.split(sep)\<close> for a separator that matches single code units: the pieces between
  the separators, empty pieces included, always at least one piece.
\<close>

fun split :: "(16 word \<Rightarrow> bool) \<Rightarrow> jsstring \<Rightarrow> jsstring list" where
  "split sep [] = [[]]"
| "split sep (u # us) =
     (if sep u then [] # split sep us
      else (case split sep us of [] \<Rightarrow> [[u]] | w # ws \<Rightarrow> (u # w) # ws))"

definition parseTags :: "jsstring \<Rightarrow> form_error + jsstring list" where
  "parseTags raw =
     (if raw = [] then Inr []
      else
        (let tags = filter (\<lambda>tag. tag \<noteq> []) (map trim (split is_tag_sep raw))
         in if length tags > 10 then Inl TooManyTags else Inr tags))"

datatype mode = New | Edit

text \<open>
  What the submit handler reads: the verdict of \<open>form.reportValidity()\<close>, the values of
  the inputs, the (type, url) pairs of the link items, and the two script variables.
  \<open>selectedClub\<close> holds the id of the club chosen for editing.
\<close>

record form =
  reportValidity :: bool
  latitudeInput :: jsstring
  longitudeInput :: jsstring
  tagsInput :: jsstring
  nameInput :: jsstring
  schoolInput :: jsstring
  provinceSelect :: jsstring
  cityInput :: jsstring
  shortDescriptionInput :: jsstring
  longDescriptionInput :: jsstring
  submitterEmailInput :: jsstring
  linkItems :: "(jsstring \<times> jsstring) list"
  currentMode :: mode
  selectedClub :: "jsstring option"

record payload =
  submissionType :: mode
  payload_name :: jsstring
  payload_school :: jsstring
  payload_province :: jsstring
  payload_city :: jsstring
  latitude :: jsnum
  longitude :: jsnum
  short_description :: jsstring
  long_description :: jsstring
  payload_tags :: "jsstring list"
  external_links :: "(jsstring \<times> jsstring) list"
  submitterEmail :: jsstring
  editingClubId :: "jsstring option"

definition collectLinks :: "(jsstring \<times> jsstring) list \<Rightarrow> (jsstring \<times> jsstring) list" where
  "collectLinks items =
     filter (\<lambda>(type, url). type \<noteq> [] \<and> url \<noteq> []) (map (\<lambda>(type, url). (trim type, trim url)) items)"

text \<open>
  The submit handler up to the payload it sends: \<open>Inl\<close> is the error shown instead.
  \<open>parseFloat\<close> is the built-in, taken as a parameter.
\<close>

definition submit_payload :: "(jsstring \<Rightarrow> jsnum) \<Rightarrow> form \<Rightarrow> form_error + payload" where
  "submit_payload parseFloat f =
     (if \<not> reportValidity f then Inl FormInvalid
      else
        (let lat = parseFloat (trim (latitudeInput f));
             lng = parseFloat (trim (longitudeInput f))
         in case validateCoordinates lat lng of
              Inl e \<Rightarrow> Inl e
            | Inr _ \<Rightarrow>
                (case parseTags (tagsInput f) of
                   Inl e \<Rightarrow> Inl e
                 | Inr parsed \<Rightarrow>
                     Inr \<lparr>submissionType = currentMode f,
                          payload_name = trim (nameInput f),
                          payload_school = trim (schoolInput f),
                          payload_province = provinceSelect f,
                          payload_city = trim (cityInput f),
                          latitude = lat,
                          longitude = lng,
                          short_description = trim (shortDescriptionInput f),
                          long_description = trim (longDescriptionInput f),
                          payload_tags = parsed,
                          external_links = collectLinks (linkItems f),
                          submitterEmail = trim (submitterEmailInput f),
                          editingClubId =
                            (if currentMode f = Edit then selectedClub f else None)\<rparr>)))"

section \<open>Approval and snapshot rebuild\<close>

text \<open>
  The routes that approve and reject submissions and the script that rebuilds the
  snapshot are not among the sources; this section follows the specification
  (sections 3, 4.2, 4.4, 4.5 and 7).
\<close>

text \<open>Modelled from the spec: the status of a Submission (section 3); the submission model is missing.\<close>

datatype submission_status = PENDING | APPROVED | REJECTED

text \<open>Modelled from the spec: the kind of a Submission, an edit naming its target record (section 3).\<close>

datatype submission_kind = NEW | EDIT string

text \<open>
  Modelled from the spec: the submitted record fields (section 3), with the two
  description strings stored independently; the schema is missing.
\<close>

record record_fields =
  rf_name :: jsstring
  rf_affiliation :: jsstring
  rf_province :: jsstring
  rf_city :: jsstring
  rf_latitude :: real
  rf_longitude :: real
  rf_short :: jsstring
  rf_long :: jsstring
  rf_tags :: "jsstring list"
  rf_media :: "jsstring option"

text \<open>Modelled from the spec: a Submission with its review metadata, nil until a terminal transition (section 3).\<close>

record submission =
  submission_id :: string
  kind :: submission_kind
  current_status :: submission_status
  submitted :: record_fields
  reviewer :: "string option"
  reviewed_at :: "nat option"
  rejection_reason :: "jsstring option"

text \<open>Modelled from the spec: a Published Record (section 3); the Club model is missing.\<close>

record published_record =
  record_id :: string
  content :: record_fields
  origin :: string
  approved_by :: string
  created :: nat
  updated :: nat

text \<open>
  Modelled from the spec: one entry of the snapshot (sections 3 and 6), the coordinate
  pair in (longitude, latitude) order and both descriptions present.
\<close>

record snapshot_entry =
  entry_id :: string
  entry_name :: jsstring
  entry_affiliation :: jsstring
  entry_province :: jsstring
  entry_city :: jsstring
  entry_coordinates :: "real \<times> real"
  entry_short :: jsstring
  entry_long :: jsstring
  entry_tags :: "jsstring list"
  entry_media :: jsstring

text \<open>
  Modelled from the spec: the state the approval state machine and the synchronizer
  work on: the two collections of the authoritative store, the snapshot file, its
  backup, and the number of rebuilds triggered so far.
\<close>

record system =
  submissions :: "submission list"
  published :: "published_record list"
  snapshot :: "8 word list option"
  backup :: "8 word list option"
  triggered :: nat

text \<open>Modelled from the spec: the error taxonomy of section 7, INVALID_STATUS carrying the current status.\<close>

datatype core_error =
    VALIDATION
  | NOT_FOUND
  | INVALID_STATUS submission_status
  | STORE_UNAVAILABLE

text \<open>Modelled from the spec: \<open>getSubmission(id)\<close> of the store adapter (section 4.2).\<close>

definition getSubmission :: "system \<Rightarrow> string \<Rightarrow> submission option" where
  "getSubmission sys sid = List.find (\<lambda>s. submission_id s = sid) (submissions sys)"

text \<open>
  Modelled from the spec: \<open>transitionSubmission\<close> (section 4.2), the conditional
  update that only moves a PENDING submission and records the review metadata.
\<close>

definition transitionSubmission ::
  "string \<Rightarrow> submission_status \<Rightarrow> string \<Rightarrow> jsstring option \<Rightarrow> nat \<Rightarrow> submission list \<Rightarrow> submission list" where
  "transitionSubmission sid target actor reason now subs =
     map (\<lambda>s. if submission_id s = sid \<and> current_status s = PENDING
               then s\<lparr>current_status := target, reviewer := Some actor,
                      reviewed_at := Some now, rejection_reason := reason\<rparr>
               else s) subs"

text \<open>
  Modelled from the spec: step 2 of \<open>approve\<close> (section 4.4): a new submission creates
  a record under the id the store assigns, an edit updates the referenced record in
  place and bumps its \<open>updated\<close> timestamp.
\<close>

definition publish :: "submission \<Rightarrow> string \<Rightarrow> string \<Rightarrow> nat \<Rightarrow> published_record list \<Rightarrow> published_record list" where
  "publish s new_id actor now recs =
     (case kind s of
        NEW \<Rightarrow>
          recs @ [\<lparr>record_id = new_id, content = submitted s, origin = submission_id s,
                   approved_by = actor, created = now, updated = now\<rparr>]
      | EDIT target \<Rightarrow>
          map (\<lambda>r. if record_id r = target
                    then r\<lparr>content := submitted s, origin := submission_id s,
                           approved_by := actor, updated := now\<rparr>
                    else r) recs)"

text \<open>
  Modelled from the spec: \<open>approve(id, actor)\<close> (section 4.4): claim the submission,
  failing with INVALID_STATUS and the current status when it is not PENDING, publish,
  record the review, trigger a rebuild. A failed call returns the state it was given.
\<close>

definition approve :: "system \<Rightarrow> string \<Rightarrow> string \<Rightarrow> string \<Rightarrow> nat \<Rightarrow> (core_error + unit) \<times> system" where
  "approve sys sid actor new_id now =
     (case getSubmission sys sid of
        None \<Rightarrow> (Inl NOT_FOUND, sys)
      | Some s \<Rightarrow>
          if current_status s \<noteq> PENDING then (Inl (INVALID_STATUS (current_status s)), sys)
          else (Inr (),
                sys\<lparr>submissions := transitionSubmission sid APPROVED actor None now (submissions sys),
                    published := publish s new_id actor now (published sys),
                    triggered := Suc (triggered sys)\<rparr>))"

text \<open>
  Modelled from the spec: \<open>reject(id, actor, reason)\<close> (section 4.4): a non-empty reason
  is required, then the same claim; no Published Record is touched.
\<close>

definition reject :: "system \<Rightarrow> string \<Rightarrow> string \<Rightarrow> jsstring \<Rightarrow> nat \<Rightarrow> (core_error + unit) \<times> system" where
  "reject sys sid actor reason now =
     (if reason = [] then (Inl VALIDATION, sys)
      else case getSubmission sys sid of
             None \<Rightarrow> (Inl NOT_FOUND, sys)
           | Some s \<Rightarrow>
               if current_status s \<noteq> PENDING then (Inl (INVALID_STATUS (current_status s)), sys)
               else (Inr (),
                     sys\<lparr>submissions :=
                           transitionSubmission sid REJECTED actor (Some reason) now (submissions sys)\<rparr>))"

text \<open>
  Modelled from the spec: the projection of a Published Record into the snapshot shape
  (section 4.5): renamed fields, coordinates reordered to (longitude, latitude), both
  descriptions passed through.
\<close>

definition project :: "published_record \<Rightarrow> snapshot_entry" where
  "project r =
     \<lparr>entry_id = record_id r,
      entry_name = rf_name (content r),
      entry_affiliation = rf_affiliation (content r),
      entry_province = rf_province (content r),
      entry_city = rf_city (content r),
      entry_coordinates = (rf_longitude (content r), rf_latitude (content r)),
      entry_short = rf_short (content r),
      entry_long = rf_long (content r),
      entry_tags = rf_tags (content r),
      entry_media = (case rf_media (content r) of None \<Rightarrow> [] | Some m \<Rightarrow> m)\<rparr>"

text \<open>
  Modelled from the spec: \<open>rebuild()\<close> (section 4.5): project every Published Record,
  copy the existing snapshot over the backup, replace the snapshot by the encoded
  projection. The encoding of the snapshot file is a parameter.
\<close>

definition rebuild :: "(snapshot_entry list \<Rightarrow> 8 word list) \<Rightarrow> system \<Rightarrow> system" where
  "rebuild encode sys =
     sys\<lparr>backup := (case snapshot sys of None \<Rightarrow> backup sys | Some old \<Rightarrow> Some old),
         snapshot := Some (encode (map project (published sys)))\<rparr>"

section \<open>A runtime for closed examples\<close>

text \<open>
  The examples below need a concrete runtime. ObjectIds are cast from and rendered as
  24 hexadecimal digits. The regular expressions are the patterns made of ASCII letters
  and digits only, which with the flag \<open>i\<close> match the texts that contain the pattern up to
  the case of ASCII letters; the examples use no other pattern, and this runtime gives
  none a matcher.
\<close>

definition hex_value :: "16 word \<Rightarrow> nat option" where
  "hex_value u =
     (if 0x30 \<le> u \<and> u \<le> 0x39 then Some (unat u - 0x30)
      else if 0x61 \<le> u \<and> u \<le> 0x66 then Some (unat u - 0x61 + 10)
      else if 0x41 \<le> u \<and> u \<le> 0x46 then Some (unat u - 0x41 + 10)
      else None)"

fun hex_number :: "nat \<Rightarrow> jsstring \<Rightarrow> nat option" where
  "hex_number acc [] = Some acc"
| "hex_number acc (u # us) =
     (case hex_value u of None \<Rightarrow> None | Some d \<Rightarrow> hex_number (16 * acc + d) us)"

definition cast_hex24 :: "jsstring \<Rightarrow> objectid option" where
  "cast_hex24 s = (if length s = 24 then map_option of_nat (hex_number 0 s) else None)"

definition hex_digit :: "nat \<Rightarrow> 16 word" where
  "hex_digit d = (if d < 10 then of_nat (0x30 + d) else of_nat (0x61 + d - 10))"

definition oid_hex24 :: "objectid \<Rightarrow> jsstring" where
  "oid_hex24 w = map (\<lambda>i. hex_digit ((unat w div 16 ^ (23 - i)) mod 16)) [0..<24]"

definition lower_ascii :: "16 word \<Rightarrow> 16 word" where
  "lower_ascii u = (if 0x41 \<le> u \<and> u \<le> 0x5A then u + 0x20 else u)"

definition is_alnum :: "16 word \<Rightarrow> bool" where
  "is_alnum u \<longleftrightarrow> (0x30 \<le> u \<and> u \<le> 0x39) \<or> (0x41 \<le> u \<and> u \<le> 0x5A) \<or> (0x61 \<le> u \<and> u \<le> 0x7A)"

fun starts_with_ci :: "jsstring \<Rightarrow> jsstring \<Rightarrow> bool" where
  "starts_with_ci [] t = True"
| "starts_with_ci (p # ps) [] = False"
| "starts_with_ci (p # ps) (u # us) = (lower_ascii p = lower_ascii u \<and> starts_with_ci ps us)"

fun contains_ci :: "jsstring \<Rightarrow> jsstring \<Rightarrow> bool" where
  "contains_ci p [] = (p = [])"
| "contains_ci p (u # us) = (starts_with_ci p (u # us) \<or> contains_ci p us)"

definition alnum_regexp_i :: "jsstring \<Rightarrow> (jsstring \<Rightarrow> bool) option" where
  "alnum_regexp_i p = (if p \<noteq> [] \<and> list_all is_alnum p then Some (contains_ci p) else None)"

definition example_runtime :: runtime where
  "example_runtime = \<lparr>regexp_i = alnum_regexp_i, castObjectId = cast_hex24, oidToString = oid_hex24\<rparr>"

section \<open>Reading responses, and a store for closed examples\<close>

text \<open>The club objects a response carries under \<open>data\<close>: the entries of a list, or the one detail.\<close>

definition data_entries :: "response \<Rightarrow> (string \<times> jsval) list list" where
  "data_entries r =
     (case field ''data'' (body r) of
        Arr xs \<Rightarrow> concat (map (\<lambda>x. case x of Obj kvs \<Rightarrow> [kvs] | _ \<Rightarrow> []) xs)
      | Obj kvs \<Rightarrow> [kvs]
      | _ \<Rightarrow> [])"

text \<open>The \<open>error\<close> member of a response.\<close>

definition error_code :: "response \<Rightarrow> jsval" where
  "error_code r = field ''error'' (body r)"

text \<open>The record of the end-to-end scenario: coordinates [116.3267, 39.9995], descriptions "A" and "B B B".\<close>

definition tsinghua_club :: club where
  "tsinghua_club =
     \<lparr>doc_id = 0x673257c0c5e4f2a1d8b9e013,
      name = js ''Game Dev Club'', school = js ''Tsinghua University'', province = js ''Beijing'',
      city = Some (js ''Haidian''),
      coordinates = [Fin 116.3267, Fin 39.9995],
      description = Some (js ''B B B''), shortDescription = Some (js ''A''),
      tags = Some [js ''Unity''], logo = None, website = None, contact = None,
      sourceSubmission = Some 0x673257b8c5e4f2a1d8b9e012, verifiedBy = Some (js ''admin1''),
      version = Some 0, createdAt = 1762896000000, updatedAt = 1762896000000\<rparr>"

definition tsinghua_store :: store where
  "tsinghua_store = \<lparr>reachable = True, clubs = [tsinghua_club]\<rparr>"

text \<open>Two documents that differ at most in \<open>sourceSubmission\<close> and \<open>verifiedBy\<close>.\<close>

definition differ_only_internal :: "club \<Rightarrow> club \<Rightarrow> bool" where
  "differ_only_internal c d \<longleftrightarrow> c\<lparr>sourceSubmission := sourceSubmission d, verifiedBy := verifiedBy d\<rparr> = d"

text \<open>The same record, approved by someone else from another submission.\<close>

definition tsinghua_club_other_origin :: club where
  "tsinghua_club_other_origin =
     tsinghua_club\<lparr>sourceSubmission := Some 0x0123456789abcdef01234567, verifiedBy := Some (js ''admin2'')\<rparr>"

text \<open>The store while it cannot be reached.\<close>

definition unreachable_store :: store where
  "unreachable_store = \<lparr>reachable = False, clubs = [tsinghua_club]\<rparr>"

text \<open>A document with none of the optional fields.\<close>

definition bare_club :: club where
  "bare_club =
     \<lparr>doc_id = 0x673257c0c5e4f2a1d8b9e014,
      name = js ''Bare'', school = js ''Somewhere'', province = js ''Beijing'',
      city = None, coordinates = [Fin 116, Fin 40],
      description = None, shortDescription = None,
      tags = None, logo = None, website = None, contact = None,
      sourceSubmission = None, verifiedBy = None,
      version = None, createdAt = 0, updatedAt = 0\<rparr>"

text \<open>A store of 21 documents, all named "a", created one after the other.\<close>

definition crowded_store :: store where
  "crowded_store =
     \<lparr>reachable = True,
      clubs = map (\<lambda>k. bare_club\<lparr>doc_id := of_nat k, name := js ''a'', createdAt := int k\<rparr>) [0..<21]\<rparr>"

section \<open>Coordinate ranges, and a form for closed examples\<close>

text \<open>"x is a number in [lo, hi]": finite and within the bounds.\<close>

definition is_number_in :: "jsnum \<Rightarrow> real \<Rightarrow> real \<Rightarrow> bool" where
  "is_number_in x lo hi = (case x of Fin r \<Rightarrow> lo \<le> r \<and> r \<le> hi | _ \<Rightarrow> False)"

text \<open>
  A \<open>parseFloat\<close> for the examples: on an optional minus sign followed by decimal
  digits it returns that integer, as the built-in does; the examples parse nothing else,
  and this function gives NaN elsewhere.
\<close>

definition decimal_digit :: "16 word \<Rightarrow> nat option" where
  "decimal_digit u = (if 0x30 \<le> u \<and> u \<le> 0x39 then Some (unat u - 0x30) else None)"

fun decimal_number :: "nat \<Rightarrow> jsstring \<Rightarrow> nat option" where
  "decimal_number acc [] = Some acc"
| "decimal_number acc (u # us) =
     (case decimal_digit u of None \<Rightarrow> None | Some d \<Rightarrow> decimal_number (10 * acc + d) us)"

definition integer_parseFloat :: "jsstring \<Rightarrow> jsnum" where
  "integer_parseFloat s =
     (case s of
        [] \<Rightarrow> NaN
      | u # us \<Rightarrow>
          if u = 0x2D then
            (if us = [] then NaN
             else case decimal_number 0 us of None \<Rightarrow> NaN | Some n \<Rightarrow> Fin (- real n))
          else (case decimal_number 0 s of None \<Rightarrow> NaN | Some n \<Rightarrow> Fin (real n)))"

text \<open>A filled-in form, its tags separated by a fullwidth comma, a line feed and a comma.\<close>

definition example_form :: form where
  "example_form =
     \<lparr>reportValidity = True,
      latitudeInput = js '' 40'', longitudeInput = js ''116 '',
      tagsInput = js ''Unity'' @ [0xFF0C] @ js '' Godot'' @ [0x000A] @ js '' ,2D'',
      nameInput = js ''Game Dev Club'', schoolInput = js ''Tsinghua University'',
      provinceSelect = js ''Beijing'', cityInput = js ''Haidian'',
      shortDescriptionInput = js ''A'', longDescriptionInput = js ''B B B'',
      submitterEmailInput = js ''a@b.c'', linkItems = [],
      currentMode = New, selectedClub = None\<rparr>"

text \<open>The payload the handler builds from it.\<close>

definition example_payload :: payload where
  "example_payload =
     \<lparr>submissionType = New,
      payload_name = js ''Game Dev Club'', payload_school = js ''Tsinghua University'',
      payload_province = js ''Beijing'', payload_city = js ''Haidian'',
      latitude = Fin 40, longitude = Fin 116,
      short_description = js ''A'', long_description = js ''B B B'',
      payload_tags = [js ''Unity'', js ''Godot'', js ''2D''],
      external_links = [], submitterEmail = js ''a@b.c'', editingClubId = None\<rparr>"

section \<open>A system for closed examples\<close>

text \<open>The fields of the end-to-end scenario.\<close>

definition example_fields :: record_fields where
  "example_fields =
     \<lparr>rf_name = js ''Game Dev Club'', rf_affiliation = js ''Tsinghua University'',
      rf_province = js ''Beijing'', rf_city = js ''Haidian'',
      rf_latitude = 39.9995, rf_longitude = 116.3267,
      rf_short = js ''A'', rf_long = js ''B B B'', rf_tags = [], rf_media = None\<rparr>"

text \<open>A submission that admin1 has approved.\<close>

definition approved_submission :: submission where
  "approved_submission =
     \<lparr>submission_id = ''s1'', kind = NEW, current_status = APPROVED, submitted = example_fields,
      reviewer = Some ''admin1'', reviewed_at = Some 10, rejection_reason = None\<rparr>"

text \<open>The record published from it.\<close>

definition example_record :: published_record where
  "example_record =
     \<lparr>record_id = ''r1'', content = example_fields, origin = ''s1'', approved_by = ''admin1'',
      created = 10, updated = 10\<rparr>"

text \<open>The system after that approval, before the first rebuild has run.\<close>

definition example_system :: system where
  "example_system =
     \<lparr>submissions = [approved_submission], published = [example_record],
      snapshot = None, backup = None, triggered = 1\<rparr>"

text \<open>An encoding for the examples: the ids of the entries, one per line.\<close>

definition example_encode :: "snapshot_entry list \<Rightarrow> 8 word list" where
  "example_encode es = concat (map (\<lambda>e. map of_char (entry_id e) @ [0x0A]) es)"

section \<open>Properties of the read routes\<close>

lemma entries_of_objects:
  "concat (map (\<lambda>x. case x of Obj kvs \<Rightarrow> [kvs] | _ \<Rightarrow> []) (map Obj es)) = es"
  by (induction es) simp_all

lemma data_entries_server_error [simp]: "data_entries (server_error m) = []"
  by (simp add: data_entries_def server_error_def field_def)

lemma data_entries_not_found [simp]: "data_entries not_found = []"
  by (simp add: data_entries_def not_found_def field_def)

lemma data_entries_list [simp]:
  "data_entries \<lparr>status = n, body = [(''success'', b), (''data'', Arr (map Obj es)), (''total'', t)]\<rparr> = es"
  unfolding data_entries_def field_def by (simp add: entries_of_objects del: map_map)

lemma data_entries_list_map [simp]:
  "data_entries \<lparr>status = n, body = [(''success'', b), (''data'', Arr (map (Obj \<circ> f) cs)), (''total'', t)]\<rparr>
     = map f cs"
  using data_entries_list [of n b "map f cs" t] by simp

lemma data_entries_detail [simp]:
  "data_entries \<lparr>status = n, body = [(''success'', b), (''data'', Obj kvs)]\<rparr> = [kvs]"
  by (simp add: data_entries_def field_def)

lemma data_entries_get_clubs:
  "data_entries (get_clubs rt st search) =
     (case build_query rt search of
        Inl e \<Rightarrow> []
      | Inr q \<Rightarrow> (case find st q (search_limit search) of
                    Inl e \<Rightarrow> []
                  | Inr cs \<Rightarrow> map (formattedClubs_entry rt) cs))"
  by (simp add: get_clubs_def Let_def split: sum.splits)

lemma data_entries_get_club_by_id:
  "data_entries (get_club_by_id rt st i) =
     (case findById rt st i of
        Inl e \<Rightarrow> []
      | Inr None \<Rightarrow> []
      | Inr (Some c) \<Rightarrow> [formattedClub rt c])"
  by (simp add: get_club_by_id_def split: sum.splits option.splits)

lemma get_clubs_entries_cases:
  "data_entries (get_clubs rt st search) = [] \<or>
   (\<exists>q cs. find st q (search_limit search) = Inr cs \<and>
      data_entries (get_clubs rt st search) = map (formattedClubs_entry rt) cs)"
proof (cases "build_query rt search")
  case (Inl e)
  then show ?thesis by (simp add: data_entries_get_clubs)
next
  case (Inr q)
  then show ?thesis
    by (cases "find st q (search_limit search)") (auto simp: data_entries_get_clubs)
qed

lemma get_club_by_id_entries_cases:
  "data_entries (get_club_by_id rt st i) = [] \<or>
   (\<exists>c. findById rt st i = Inr (Some c) \<and>
      data_entries (get_club_by_id rt st i) = [formattedClub rt c])"
proof (cases "findById rt st i")
  case (Inl e)
  then show ?thesis by (simp add: data_entries_get_club_by_id)
next
  case (Inr found)
  then show ?thesis
    by (cases found) (auto simp: data_entries_get_club_by_id)
qed

lemma find_subset:
  "find st q n = Inr cs \<Longrightarrow> set cs \<subseteq> select_public ` set (clubs st)"
proof -
  assume "find st q n = Inr cs"
  then have cs: "cs = map select_public (limit n (sort_newest_first (filter (matches q) (clubs st))))"
    by (simp add: find_def split: if_splits)
  have "set (limit n (sort_newest_first (filter (matches q) (clubs st)))) \<subseteq> set (clubs st)"
    using set_take_subset [of _ "sort_newest_first (filter (matches q) (clubs st))"]
    by (auto simp: limit_def sort_newest_first_def split: option.splits)
  with cs show ?thesis by auto
qed

lemma findById_member:
  "findById rt st i = Inr (Some c) \<Longrightarrow> c \<in> select_public ` set (clubs st)"
  by (auto simp: findById_def find_Some_iff split: if_splits option.splits)

lemma index_pair: "index [lng, lat] 1 = Num lat" "index [lng, lat] 0 = Num lng"
  by (simp_all add: index_def)

lemma list_entry_coordinates:
  "field ''latitude'' (formattedClubs_entry rt c) = index (coordinates c) 1"
  "field ''longitude'' (formattedClubs_entry rt c) = index (coordinates c) 0"
  by (simp_all add: formattedClubs_entry_def field_def)

lemma detail_coordinates:
  "field ''latitude'' (formattedClub rt c) = index (coordinates c) 1"
  "field ''longitude'' (formattedClub rt c) = index (coordinates c) 0"
  by (simp_all add: formattedClub_def field_def)

lemma select_public_coordinates [simp]: "coordinates (select_public c) = coordinates c"
  by (simp add: select_public_def)

lemma served_list_entries:
  "set (data_entries (get_clubs rt st search))
     \<subseteq> (\<lambda>d. formattedClubs_entry rt (select_public d)) ` set (clubs st)"
proof
  fix e
  assume "e \<in> set (data_entries (get_clubs rt st search))"
  with get_clubs_entries_cases [of rt st search]
  obtain q cs where found: "find st q (search_limit search) = Inr cs"
    and e: "e \<in> formattedClubs_entry rt ` set cs"
    by auto
  from find_subset [OF found] e
  show "e \<in> (\<lambda>d. formattedClubs_entry rt (select_public d)) ` set (clubs st)"
    by auto
qed

lemma served_detail_entries:
  "set (data_entries (get_club_by_id rt st i))
     \<subseteq> (\<lambda>d. formattedClub rt (select_public d)) ` set (clubs st)"
  using findById_member [of rt st i] get_club_by_id_entries_cases [of rt st i]
  by auto

text \<open>
  Claim C1. Both read projections take \<open>latitude\<close> from \<open>coordinates[1]\<close> and
  \<open>longitude\<close> from \<open>coordinates[0]\<close>: for a document stored with coordinates
  [lng, lat], the list entry and the detail object carry latitude lat and longitude lng,
  and every entry that GET /api/clubs or GET /api/clubs/:id serves is such a projection
  of a stored document.
\<close>

theorem read_projection_coordinates:
  "(coordinates c = [lng, lat] \<longrightarrow>
      field ''latitude'' (formattedClubs_entry rt (select_public c)) = Num lat \<and>
      field ''longitude'' (formattedClubs_entry rt (select_public c)) = Num lng \<and>
      field ''latitude'' (formattedClub rt (select_public c)) = Num lat \<and>
      field ''longitude'' (formattedClub rt (select_public c)) = Num lng) \<and>
   set (data_entries (get_clubs rt st search))
     \<subseteq> (\<lambda>d. formattedClubs_entry rt (select_public d)) ` set (clubs st) \<and>
   set (data_entries (get_club_by_id rt st i))
     \<subseteq> (\<lambda>d. formattedClub rt (select_public d)) ` set (clubs st)"
  by (simp add: served_list_entries served_detail_entries list_entry_coordinates
      detail_coordinates index_def)

lemma tsinghua_findById:
  "findById example_runtime tsinghua_store (js ''673257c0c5e4f2a1d8b9e013'') = Inr (Some (select_public tsinghua_club))"
  by (simp add: findById_def tsinghua_store_def example_runtime_def
      cast_hex24_def js_def hex_value_def tsinghua_club_def)

lemma tsinghua_find:
  "find tsinghua_store MatchAll None = Inr [select_public tsinghua_club]"
  by (simp add: find_def limit_def sort_newest_first_def matches_def tsinghua_store_def)

text \<open>
  The record stored with [116.3267, 39.9995] is served by both routes with latitude
  39.9995 and longitude 116.3267.
\<close>

theorem read_projection_coordinates_witness:
  "coordinates tsinghua_club = [Fin 116.3267, Fin 39.9995] \<and>
   data_entries (get_clubs example_runtime tsinghua_store None)
     = [formattedClubs_entry example_runtime (select_public tsinghua_club)] \<and>
   data_entries (get_club_by_id example_runtime tsinghua_store (js ''673257c0c5e4f2a1d8b9e013''))
     = [formattedClub example_runtime (select_public tsinghua_club)] \<and>
   field ''latitude'' (formattedClubs_entry example_runtime (select_public tsinghua_club)) = Num (Fin 39.9995) \<and>
   field ''longitude'' (formattedClubs_entry example_runtime (select_public tsinghua_club)) = Num (Fin 116.3267) \<and>
   field ''latitude'' (formattedClub example_runtime (select_public tsinghua_club)) = Num (Fin 39.9995) \<and>
   field ''longitude'' (formattedClub example_runtime (select_public tsinghua_club)) = Num (Fin 116.3267)"
proof -
  have c: "coordinates tsinghua_club = [Fin 116.3267, Fin 39.9995]"
    by (simp add: tsinghua_club_def)
  show ?thesis
    using c read_projection_coordinates [of tsinghua_club "Fin 116.3267" "Fin 39.9995" example_runtime
        tsinghua_store None "js ''673257c0c5e4f2a1d8b9e013''"]
    by (simp add: data_entries_get_clubs data_entries_get_club_by_id tsinghua_findById
        tsinghua_find build_query_def search_limit_def)
qed

lemma or_empty_eq: "or_empty x = (case x of None \<Rightarrow> [] | Some s \<Rightarrow> s)"
  by (simp add: or_empty_def split: option.splits)

lemma select_public_descriptions [simp]:
  "shortDescription (select_public c) = shortDescription c"
  "description (select_public c) = description c"
  by (simp_all add: select_public_def)

text \<open>
  Claim C2. Both read projections give \<open>short_description\<close> the stored
  \<open>shortDescription\<close> and \<open>long_description\<close> the stored \<open>description\<close>,
  unchanged, each from its own field only; an absent field is served as the empty
  string, so the member is always a string and never left out. Every entry either route
  serves is such a projection of a stored document.
\<close>

theorem descriptions_pass_through:
  "field ''short_description'' (formattedClubs_entry rt (select_public c))
     = Str (case shortDescription c of None \<Rightarrow> [] | Some s \<Rightarrow> s) \<and>
   field ''long_description'' (formattedClubs_entry rt (select_public c))
     = Str (case description c of None \<Rightarrow> [] | Some s \<Rightarrow> s) \<and>
   field ''short_description'' (formattedClub rt (select_public c))
     = Str (case shortDescription c of None \<Rightarrow> [] | Some s \<Rightarrow> s) \<and>
   field ''long_description'' (formattedClub rt (select_public c))
     = Str (case description c of None \<Rightarrow> [] | Some s \<Rightarrow> s) \<and>
   set (data_entries (get_clubs rt st search))
     \<subseteq> (\<lambda>d. formattedClubs_entry rt (select_public d)) ` set (clubs st) \<and>
   set (data_entries (get_club_by_id rt st i))
     \<subseteq> (\<lambda>d. formattedClub rt (select_public d)) ` set (clubs st)"
proof (intro conjI)
  show "set (data_entries (get_clubs rt st search))
     \<subseteq> (\<lambda>d. formattedClubs_entry rt (select_public d)) ` set (clubs st)"
    by (rule served_list_entries)
  show "set (data_entries (get_club_by_id rt st i))
     \<subseteq> (\<lambda>d. formattedClub rt (select_public d)) ` set (clubs st)"
    by (rule served_detail_entries)
qed (simp_all add: or_empty_eq formattedClubs_entry_def formattedClub_def field_def)

lemma keys_list_entry:
  "keys (formattedClubs_entry rt c) =
     [''id'', ''name'', ''school'', ''city'', ''province'', ''latitude'', ''longitude'', ''img_name'',
      ''short_description'', ''long_description'', ''tags'', ''website'', ''contact'',
      ''shortDescription'', ''description'', ''coordinates'']"
  by (simp add: keys_def formattedClubs_entry_def)

lemma keys_detail:
  "keys (formattedClub rt c) =
     [''id'', ''name'', ''school'', ''city'', ''province'', ''latitude'', ''longitude'', ''img_name'',
      ''short_description'', ''long_description'', ''tags'', ''website'', ''contact'']"
  by (simp add: keys_def formattedClub_def)

lemma insort_key_map:
  "insort_key k (f x) (map f xs) = map f (insort_key (\<lambda>y. k (f y)) x xs)"
  by (induction xs) simp_all

lemma sort_key_map: "sort_key k (map f xs) = map f (sort_key (\<lambda>y. k (f y)) xs)"
  by (induction xs) (simp_all add: insort_key_map)

lemma find_map:
  "(\<And>x. P (f x) = P x) \<Longrightarrow> List.find P (map f xs) = map_option f (List.find P xs)"
  by (induction xs) simp_all

lemma matches_select_public [simp]: "matches q (select_public c) = matches q c"
  by (simp add: matches_def select_public_def split: query.splits)

lemma createdAt_select_public [simp]: "createdAt (select_public c) = createdAt c"
  by (simp add: select_public_def)

lemma doc_id_select_public [simp]: "doc_id (select_public c) = doc_id c"
  by (simp add: select_public_def)

lemma find_on_public:
  "find st q n =
     (if \<not> reachable st then Inl StoreUnreachable
      else Inr (limit n (sort_newest_first (filter (matches q) (map select_public (clubs st))))))"
proof -
  have "map select_public (limit n (sort_newest_first (filter (matches q) (clubs st))))
        = limit n (sort_newest_first (filter (matches q) (map select_public (clubs st))))"
    by (simp add: limit_def sort_newest_first_def filter_map sort_key_map take_map comp_def
        split: option.splits)
  then show ?thesis by (simp add: find_def)
qed

lemma findById_on_public:
  "findById rt st i =
     (if \<not> reachable st then Inl StoreUnreachable
      else case castObjectId rt i of
             None \<Rightarrow> Inl CastError
           | Some oid \<Rightarrow> Inr (List.find (\<lambda>c. doc_id c = oid) (map select_public (clubs st))))"
  by (simp add: findById_def find_map split: option.splits)

lemma differ_only_internal_public:
  "differ_only_internal c d \<Longrightarrow> select_public c = select_public d"
proof -
  assume "differ_only_internal c d"
  then have "d = c\<lparr>sourceSubmission := sourceSubmission d, verifiedBy := verifiedBy d\<rparr>"
    by (simp add: differ_only_internal_def)
  then have "select_public d
      = select_public (c\<lparr>sourceSubmission := sourceSubmission d, verifiedBy := verifiedBy d\<rparr>)"
    by simp
  then show ?thesis by (simp add: select_public_def)
qed

lemma differ_only_internal_map:
  "list_all2 differ_only_internal cs ds \<Longrightarrow> map select_public cs = map select_public ds"
  by (induction rule: list_all2_induct) (simp_all add: differ_only_internal_public)

lemma get_clubs_public:
  assumes "map select_public (clubs st) = map select_public (clubs st')"
    and "reachable st = reachable st'"
  shows "get_clubs rt st search = get_clubs rt st' search"
proof -
  have same: "find st q n = find st' q n" for q n
    unfolding find_on_public assms ..
  show ?thesis
    unfolding get_clubs_def same ..
qed

lemma get_club_by_id_public:
  assumes "map select_public (clubs st) = map select_public (clubs st')"
    and "reachable st = reachable st'"
  shows "get_club_by_id rt st i = get_club_by_id rt st' i"
proof -
  have same: "findById rt st i = findById rt st' i"
    unfolding findById_on_public assms ..
  show ?thesis
    unfolding get_club_by_id_def same ..
qed

text \<open>
  Claim C10. No club object served by GET /api/clubs or GET /api/clubs/:id has a member
  \<open>__v\<close>, \<open>sourceSubmission\<close> or \<open>verifiedBy\<close>, and two stores whose documents
  differ only in \<open>sourceSubmission\<close> and \<open>verifiedBy\<close> get the same response from
  either route.
\<close>

theorem internal_fields_not_served:
  "(\<forall>e \<in> set (data_entries (get_clubs rt st search)) \<union> set (data_entries (get_club_by_id rt st i)).
      ''__v'' \<notin> set (keys e) \<and> ''sourceSubmission'' \<notin> set (keys e) \<and> ''verifiedBy'' \<notin> set (keys e)) \<and>
   (reachable st = reachable st' \<and> list_all2 differ_only_internal (clubs st) (clubs st') \<longrightarrow>
      get_clubs rt st search = get_clubs rt st' search \<and>
      get_club_by_id rt st i = get_club_by_id rt st' i)"
proof (intro conjI ballI impI)
  fix e
  assume "e \<in> set (data_entries (get_clubs rt st search)) \<union> set (data_entries (get_club_by_id rt st i))"
  with served_list_entries [of rt st search] served_detail_entries [of rt st i]
  have e: "(\<exists>c. e = formattedClubs_entry rt c) \<or> (\<exists>c. e = formattedClub rt c)"
    by auto
  show "''__v'' \<notin> set (keys e)"
    using e by (auto simp: keys_list_entry keys_detail)
  show "''sourceSubmission'' \<notin> set (keys e)"
    using e by (auto simp: keys_list_entry keys_detail)
  show "''verifiedBy'' \<notin> set (keys e)"
    using e by (auto simp: keys_list_entry keys_detail)
next
  assume a: "reachable st = reachable st' \<and> list_all2 differ_only_internal (clubs st) (clubs st')"
  then have m: "map select_public (clubs st) = map select_public (clubs st')"
    by (simp add: differ_only_internal_map)
  from a have r: "reachable st = reachable st'" by simp
  show "get_clubs rt st search = get_clubs rt st' search"
    using m r by (rule get_clubs_public)
  show "get_club_by_id rt st i = get_club_by_id rt st' i"
    using m r by (rule get_club_by_id_public)
qed


text \<open>
  The scenario record and its copy with another approver and origin: different internal
  fields, equal responses, and none of the three members in the served object.
\<close>

theorem internal_fields_not_served_witness:
  "reachable tsinghua_store = reachable (tsinghua_store\<lparr>clubs := [tsinghua_club_other_origin]\<rparr>) \<and>
   list_all2 differ_only_internal (clubs tsinghua_store)
     (clubs (tsinghua_store\<lparr>clubs := [tsinghua_club_other_origin]\<rparr>)) \<and>
   verifiedBy tsinghua_club \<noteq> verifiedBy tsinghua_club_other_origin \<and>
   sourceSubmission tsinghua_club \<noteq> sourceSubmission tsinghua_club_other_origin \<and>
   get_clubs example_runtime tsinghua_store None
     = get_clubs example_runtime (tsinghua_store\<lparr>clubs := [tsinghua_club_other_origin]\<rparr>) None \<and>
   get_club_by_id example_runtime tsinghua_store (js ''673257c0c5e4f2a1d8b9e013'')
     = get_club_by_id example_runtime (tsinghua_store\<lparr>clubs := [tsinghua_club_other_origin]\<rparr>)
         (js ''673257c0c5e4f2a1d8b9e013'') \<and>
   data_entries (get_club_by_id example_runtime tsinghua_store (js ''673257c0c5e4f2a1d8b9e013''))
     = [formattedClub example_runtime (select_public tsinghua_club)] \<and>
   ''verifiedBy'' \<notin> set (keys (formattedClub example_runtime (select_public tsinghua_club))) \<and>
   ''sourceSubmission'' \<notin> set (keys (formattedClub example_runtime (select_public tsinghua_club))) \<and>
   ''__v'' \<notin> set (keys (formattedClub example_runtime (select_public tsinghua_club)))"
proof -
  have d: "list_all2 differ_only_internal (clubs tsinghua_store)
     (clubs (tsinghua_store\<lparr>clubs := [tsinghua_club_other_origin]\<rparr>))"
    by (simp add: tsinghua_store_def tsinghua_club_other_origin_def differ_only_internal_def)
  have r: "reachable tsinghua_store = reachable (tsinghua_store\<lparr>clubs := [tsinghua_club_other_origin]\<rparr>)"
    by simp
  have n: "verifiedBy tsinghua_club \<noteq> verifiedBy tsinghua_club_other_origin"
    "sourceSubmission tsinghua_club \<noteq> sourceSubmission tsinghua_club_other_origin"
    by (simp_all add: tsinghua_club_def tsinghua_club_other_origin_def js_def)
  have e: "data_entries (get_club_by_id example_runtime tsinghua_store (js ''673257c0c5e4f2a1d8b9e013''))
     = [formattedClub example_runtime (select_public tsinghua_club)]"
    by (simp add: data_entries_get_club_by_id tsinghua_findById)
  show ?thesis
    using d r n e
      internal_fields_not_served [of example_runtime tsinghua_store None "js ''673257c0c5e4f2a1d8b9e013''"
        "tsinghua_store\<lparr>clubs := [tsinghua_club_other_origin]\<rparr>"]
    by simp
qed

text \<open>
  The scenario record is served with descriptions "A" and "B B B"; a record without
  descriptions is served with two empty strings.
\<close>

theorem descriptions_pass_through_witness:
  "field ''short_description'' (formattedClubs_entry example_runtime (select_public tsinghua_club)) = Str (js ''A'') \<and>
   field ''long_description'' (formattedClubs_entry example_runtime (select_public tsinghua_club)) = Str (js ''B B B'') \<and>
   field ''short_description'' (formattedClub example_runtime (select_public tsinghua_club)) = Str (js ''A'') \<and>
   field ''long_description'' (formattedClub example_runtime (select_public tsinghua_club)) = Str (js ''B B B'') \<and>
   field ''short_description'' (formattedClub example_runtime (select_public bare_club)) = Str [] \<and>
   field ''long_description'' (formattedClub example_runtime (select_public bare_club)) = Str []"
  using descriptions_pass_through [of example_runtime tsinghua_club tsinghua_store None "js ''673257c0c5e4f2a1d8b9e013''"]
    descriptions_pass_through [of example_runtime bare_club tsinghua_store None "js ''673257c0c5e4f2a1d8b9e013''"]
  by (simp add: tsinghua_club_def bare_club_def)

lemma error_code_server_error [simp]: "error_code (server_error m) = Str (js ''SERVER_ERROR'')"
  by (simp add: error_code_def server_error_def field_def)

lemma status_server_error [simp]: "status (server_error m) = 500"
  by (simp add: server_error_def)

lemma success_server_error [simp]: "field ''success'' (body (server_error m)) = Bool False"
  by (simp add: server_error_def field_def)

lemma error_code_not_found: "error_code not_found = Str (js ''NOT_FOUND'')"
  by (simp add: error_code_def not_found_def field_def)

lemma js_codes_differ:
  "js ''SERVER_ERROR'' \<noteq> js ''NOT_FOUND''"
  "js ''SERVER_ERROR'' \<noteq> js ''STORE_UNAVAILABLE''"
  by (simp_all add: js_def)

lemma findById_unreachable: "\<not> reachable st \<Longrightarrow> findById rt st i = Inl StoreUnreachable"
  by (simp add: findById_def)

lemma find_unreachable: "\<not> reachable st \<Longrightarrow> find st q n = Inl StoreUnreachable"
  by (simp add: find_def)

lemma get_clubs_unreachable:
  "\<not> reachable st \<Longrightarrow> get_clubs rt st search = server_error list_failed_message"
  by (simp add: get_clubs_def find_unreachable split: sum.splits)

lemma get_club_by_id_throws:
  "findById rt st i = Inl e \<Longrightarrow> get_club_by_id rt st i = server_error detail_failed_message"
  by (simp add: get_club_by_id_def)

lemma find_None_doc_id:
  "List.find (\<lambda>c. doc_id c = oid) cs = None \<longleftrightarrow> (\<forall>c\<in>set cs. doc_id c \<noteq> oid)"
  by (auto simp: find_None_iff)

lemma get_club_by_id_completes:
  assumes "reachable st" and "castObjectId rt i = Some oid"
  shows "get_club_by_id rt st i =
           (case List.find (\<lambda>c. doc_id c = oid) (clubs st) of
              None \<Rightarrow> not_found
            | Some c \<Rightarrow> \<lparr>status = 200,
                         body = [(''success'', Bool True), (''data'', Obj (formattedClub rt (select_public c)))]\<rparr>)"
  using assms by (simp add: get_club_by_id_def findById_def split: option.splits)

text \<open>
  Claim C5, amended. Whenever the lookup completes (the store is reachable and the id
  casts to an ObjectId), GET /api/clubs/:id answers NOT_FOUND with status 404 exactly
  when no Club document has that id, and otherwise answers with success and the detail
  projection of a document with that id. When the lookup throws (the store cannot be
  reached, or the id does not cast), it answers SERVER_ERROR with status 500.
\<close>

theorem get_club_by_id_outcomes:
  "(reachable st \<and> castObjectId rt i = Some oid \<longrightarrow>
      (get_club_by_id rt st i = not_found \<longleftrightarrow> (\<forall>c\<in>set (clubs st). doc_id c \<noteq> oid)) \<and>
      ((\<exists>c\<in>set (clubs st). doc_id c = oid) \<longrightarrow>
         (\<exists>c\<in>set (clubs st). doc_id c = oid \<and>
            get_club_by_id rt st i =
              \<lparr>status = 200,
               body = [(''success'', Bool True), (''data'', Obj (formattedClub rt (select_public c)))]\<rparr>))) \<and>
   (\<not> reachable st \<or> castObjectId rt i = None \<longrightarrow>
      get_club_by_id rt st i = server_error detail_failed_message) \<and>
   status not_found = 404 \<and> error_code not_found = Str (js ''NOT_FOUND'') \<and>
   status (server_error detail_failed_message) = 500 \<and>
   error_code (server_error detail_failed_message) = Str (js ''SERVER_ERROR'')"
proof (intro conjI impI)
  assume a: "reachable st \<and> castObjectId rt i = Some oid"
  then have r: "get_club_by_id rt st i =
           (case List.find (\<lambda>c. doc_id c = oid) (clubs st) of
              None \<Rightarrow> not_found
            | Some c \<Rightarrow> \<lparr>status = 200,
                         body = [(''success'', Bool True), (''data'', Obj (formattedClub rt (select_public c)))]\<rparr>)"
    by (simp add: get_club_by_id_completes)
  show "get_club_by_id rt st i = not_found \<longleftrightarrow> (\<forall>c\<in>set (clubs st). doc_id c \<noteq> oid)"
  proof (cases "List.find (\<lambda>c. doc_id c = oid) (clubs st)")
    case None
    then have "\<forall>c\<in>set (clubs st). doc_id c \<noteq> oid"
      by (simp add: find_None_doc_id)
    moreover from r None have "get_club_by_id rt st i = not_found"
      by simp
    ultimately show ?thesis by simp
  next
    case (Some c)
    then have "c \<in> set (clubs st)" "doc_id c = oid"
      by (auto simp: find_Some_iff)
    moreover have "get_club_by_id rt st i \<noteq> not_found"
      using r Some by (simp add: not_found_def)
    ultimately show ?thesis by auto
  qed
  assume "\<exists>c\<in>set (clubs st). doc_id c = oid"
  then have "List.find (\<lambda>c. doc_id c = oid) (clubs st) \<noteq> None"
    by (simp add: find_None_doc_id)
  then obtain c where f: "List.find (\<lambda>c. doc_id c = oid) (clubs st) = Some c"
    by auto
  then have "c \<in> set (clubs st)" "doc_id c = oid"
    by (auto simp: find_Some_iff)
  with r f show "\<exists>c\<in>set (clubs st). doc_id c = oid \<and>
            get_club_by_id rt st i =
              \<lparr>status = 200,
               body = [(''success'', Bool True), (''data'', Obj (formattedClub rt (select_public c)))]\<rparr>"
    by auto
next
  assume "\<not> reachable st \<or> castObjectId rt i = None"
  then have "\<exists>e. findById rt st i = Inl e"
    by (auto simp: findById_def)
  then show "get_club_by_id rt st i = server_error detail_failed_message"
    by (auto simp: get_club_by_id_throws)
next
  show "error_code not_found = Str (js ''NOT_FOUND'')"
    by (rule error_code_not_found)
qed (simp_all add: not_found_def)

lemma abc_not_cast: "cast_hex24 (js ''abc'') = None"
  by (simp add: cast_hex24_def js_def)

lemma tsinghua_id_cast:
  "cast_hex24 (js ''673257c0c5e4f2a1d8b9e013'') = Some 0x673257c0c5e4f2a1d8b9e013"
  by (simp add: cast_hex24_def js_def hex_value_def)

lemma missing_id_cast:
  "cast_hex24 (js ''000000000000000000000000'') = Some 0"
  by (simp add: cast_hex24_def js_def hex_value_def)

lemma tsinghua_oid_hex: "oid_hex24 (doc_id tsinghua_club) = js ''673257c0c5e4f2a1d8b9e013''"
  by (simp add: oid_hex24_def js_def hex_digit_def upt_rec tsinghua_club_def)

text \<open>
  An id no document has gives NOT_FOUND, the id of the scenario record gives its detail,
  and the same id on the unreachable store gives SERVER_ERROR.
\<close>

theorem get_club_by_id_outcomes_witness:
  "get_club_by_id example_runtime tsinghua_store (js ''000000000000000000000000'') = not_found \<and>
   get_club_by_id example_runtime tsinghua_store (js ''673257c0c5e4f2a1d8b9e013'') =
     \<lparr>status = 200,
      body = [(''success'', Bool True),
              (''data'', Obj (formattedClub example_runtime (select_public tsinghua_club)))]\<rparr> \<and>
   get_club_by_id example_runtime unreachable_store (js ''673257c0c5e4f2a1d8b9e013'')
     = server_error detail_failed_message"
proof -
  have r: "reachable tsinghua_store" "\<not> reachable unreachable_store"
    by (simp_all add: tsinghua_store_def unreachable_store_def)
  have c: "castObjectId example_runtime (js ''000000000000000000000000'') = Some 0"
    "castObjectId example_runtime (js ''673257c0c5e4f2a1d8b9e013'') = Some 0x673257c0c5e4f2a1d8b9e013"
    by (simp_all add: example_runtime_def missing_id_cast tsinghua_id_cast)
  have s: "clubs tsinghua_store = [tsinghua_club]" "doc_id tsinghua_club = 0x673257c0c5e4f2a1d8b9e013"
    by (simp_all add: tsinghua_store_def tsinghua_club_def)
  show ?thesis
    using r c
      get_club_by_id_outcomes [of tsinghua_store example_runtime "js ''000000000000000000000000''" 0]
      get_club_by_id_outcomes [of tsinghua_store example_runtime "js ''673257c0c5e4f2a1d8b9e013''"
        "0x673257c0c5e4f2a1d8b9e013"]
      get_club_by_id_outcomes [of unreachable_store example_runtime "js ''673257c0c5e4f2a1d8b9e013''" 0]
    by (simp add: s)
qed

text \<open>
  Claim C5 as stated fails: the id "abc" is the id of no document, yet the answer is
  status 500 and not NOT_FOUND; and the id of a stored document gives no success while
  the store cannot be reached.
\<close>

theorem not_found_counterexample:
  "clubs tsinghua_store = [tsinghua_club] \<and>
   oid_hex24 (doc_id tsinghua_club) \<noteq> js ''abc'' \<and>
   status (get_club_by_id example_runtime tsinghua_store (js ''abc'')) = 500 \<and>
   error_code (get_club_by_id example_runtime tsinghua_store (js ''abc'')) \<noteq> Str (js ''NOT_FOUND'') \<and>
   oid_hex24 (doc_id tsinghua_club) = js ''673257c0c5e4f2a1d8b9e013'' \<and>
   clubs unreachable_store = [tsinghua_club] \<and>
   status (get_club_by_id example_runtime unreachable_store (js ''673257c0c5e4f2a1d8b9e013'')) = 500 \<and>
   field ''success'' (body (get_club_by_id example_runtime unreachable_store (js ''673257c0c5e4f2a1d8b9e013'')))
     = Bool False"
proof -
  have a: "get_club_by_id example_runtime tsinghua_store (js ''abc'') = server_error detail_failed_message"
    by (simp add: get_club_by_id_def findById_def tsinghua_store_def example_runtime_def abc_not_cast)
  have b: "get_club_by_id example_runtime unreachable_store (js ''673257c0c5e4f2a1d8b9e013'')
      = server_error detail_failed_message"
    by (simp add: get_club_by_id_def findById_def unreachable_store_def)
  have c: "oid_hex24 (doc_id tsinghua_club) \<noteq> js ''abc''"
    unfolding tsinghua_oid_hex by (simp add: js_def)
  have d: "clubs tsinghua_store = [tsinghua_club]" "clubs unreachable_store = [tsinghua_club]"
    by (simp_all add: tsinghua_store_def unreachable_store_def)
  show ?thesis
    unfolding a b d using c by (simp add: js_codes_differ tsinghua_oid_hex)
qed

text \<open>
  Claim C8, amended. Whenever the store cannot be reached, GET /api/clubs and
  GET /api/clubs/:id surface the failure to the caller: status 500, \<open>success\<close>
  false, under the code SERVER_ERROR that the routes use for every thrown error.
\<close>

theorem store_failure_is_server_error:
  "\<not> reachable st \<longrightarrow>
     status (get_clubs rt st search) = 500 \<and>
     field ''success'' (body (get_clubs rt st search)) = Bool False \<and>
     error_code (get_clubs rt st search) = Str (js ''SERVER_ERROR'') \<and>
     status (get_club_by_id rt st i) = 500 \<and>
     field ''success'' (body (get_club_by_id rt st i)) = Bool False \<and>
     error_code (get_club_by_id rt st i) = Str (js ''SERVER_ERROR'')"
  by (simp add: get_clubs_unreachable get_club_by_id_throws [OF findById_unreachable])

text \<open>Both routes on the unreachable store.\<close>

theorem store_failure_is_server_error_witness:
  "\<not> reachable unreachable_store \<and>
   status (get_clubs example_runtime unreachable_store None) = 500 \<and>
   error_code (get_clubs example_runtime unreachable_store None) = Str (js ''SERVER_ERROR'') \<and>
   status (get_club_by_id example_runtime unreachable_store (js ''673257c0c5e4f2a1d8b9e013'')) = 500 \<and>
   error_code (get_club_by_id example_runtime unreachable_store (js ''673257c0c5e4f2a1d8b9e013''))
     = Str (js ''SERVER_ERROR'')"
proof -
  have r: "\<not> reachable unreachable_store"
    by (simp add: unreachable_store_def)
  show ?thesis
    using r store_failure_is_server_error [of unreachable_store example_runtime None
        "js ''673257c0c5e4f2a1d8b9e013''"]
    by simp
qed

text \<open>
  Claim C8 as stated fails: on the unreachable store neither route reports the code
  STORE_UNAVAILABLE, and the code they report is the one a malformed id gets on a
  reachable store.
\<close>

theorem store_unavailable_counterexample:
  "\<not> reachable unreachable_store \<and>
   error_code (get_clubs example_runtime unreachable_store None) \<noteq> Str (js ''STORE_UNAVAILABLE'') \<and>
   error_code (get_club_by_id example_runtime unreachable_store (js ''673257c0c5e4f2a1d8b9e013''))
     \<noteq> Str (js ''STORE_UNAVAILABLE'') \<and>
   error_code (get_club_by_id example_runtime tsinghua_store (js ''abc''))
     = error_code (get_club_by_id example_runtime unreachable_store (js ''673257c0c5e4f2a1d8b9e013''))"
proof -
  have r: "\<not> reachable unreachable_store"
    by (simp add: unreachable_store_def)
  have a: "get_club_by_id example_runtime tsinghua_store (js ''abc'') = server_error detail_failed_message"
    by (simp add: get_club_by_id_def findById_def tsinghua_store_def example_runtime_def abc_not_cast)
  show ?thesis
    using r by (simp add: a get_clubs_unreachable get_club_by_id_throws [OF findById_unreachable]
        js_codes_differ)
qed

lemma trim_Nil [simp]: "trim [] = []"
  by (simp add: trim_def)

lemma matches_OrRegex:
  "matches (OrRegex m) c \<longleftrightarrow>
     m (name c) \<or> m (school c) \<or> m (province c) \<or> (\<exists>t. city c = Some t \<and> m t)"
  by (simp add: matches_def split: option.splits)

lemma build_query_search:
  "trim s \<noteq> [] \<Longrightarrow> regexp_i rt (trim s) = Some m \<Longrightarrow> build_query rt (Some s) = Inr (OrRegex m)"
  by (auto simp: build_query_def)

lemma build_query_blank:
  "trim s = [] \<Longrightarrow> build_query rt (Some s) = Inr MatchAll"
  by (simp add: build_query_def)

lemma build_query_absent: "build_query rt None = Inr MatchAll"
  by (simp add: build_query_def)

lemma search_limit_present: "s \<noteq> [] \<Longrightarrow> search_limit (Some s) = Some 20"
  by (simp add: search_limit_def)

lemma search_limit_absent: "search_limit None = None" "search_limit (Some []) = None"
  by (simp_all add: search_limit_def)

lemma get_clubs_ok:
  assumes "build_query rt search = Inr q" and "reachable st"
  shows "status (get_clubs rt st search) = 200"
    and "data_entries (get_clubs rt st search) =
           map (\<lambda>c. formattedClubs_entry rt (select_public c))
             (limit (search_limit search) (sort_newest_first (filter (matches q) (clubs st))))"
proof -
  show "status (get_clubs rt st search) = 200"
    using assms by (simp add: get_clubs_def find_def Let_def)
  show "data_entries (get_clubs rt st search) =
           map (\<lambda>c. formattedClubs_entry rt (select_public c))
             (limit (search_limit search) (sort_newest_first (filter (matches q) (clubs st))))"
    using assms by (simp add: data_entries_get_clubs find_def comp_def)
qed

lemma sorted_sort_newest_first: "sorted (map (\<lambda>c. - createdAt c) (sort_newest_first cs))"
  by (simp add: sort_newest_first_def)

lemma mset_sort_newest_first: "mset (sort_newest_first cs) = mset cs"
  by (simp add: sort_newest_first_def)

lemma length_sort_newest_first: "length (sort_newest_first cs) = length cs"
  by (simp add: sort_newest_first_def)

lemma take_sorted_newest:
  assumes "sorted (map (\<lambda>c. - createdAt c) xs)"
  shows "sorted (map (\<lambda>c. - createdAt c) (take n xs))"
    and "\<forall>d\<in>set (drop n xs). \<forall>c\<in>set (take n xs). createdAt d \<le> createdAt c"
proof -
  have "sorted (map (\<lambda>c. - createdAt c) (take n xs) @ map (\<lambda>c. - createdAt c) (drop n xs))"
    using assms by (simp flip: map_append)
  then show "sorted (map (\<lambda>c. - createdAt c) (take n xs))"
    and "\<forall>d\<in>set (drop n xs). \<forall>c\<in>set (take n xs). createdAt d \<le> createdAt c"
    by (auto simp: sorted_append)
qed

lemma mset_minus_take:
  assumes "mset xs = M"
  shows "mset (take n xs) \<subseteq># M" and "M - mset (take n xs) = mset (drop n xs)"
proof -
  have "M = mset (take n xs) + mset (drop n xs)"
    using assms by (simp flip: mset_append)
  then show "mset (take n xs) \<subseteq># M" and "M - mset (take n xs) = mset (drop n xs)"
    by simp_all
qed

text \<open>
  Claim C4, amended. For a search string whose trimmed form is non-empty and accepted as
  a regular expression, GET /api/clubs on a reachable store returns the newest 20 (all,
  when there are fewer) of the clubs whose name, school, province or city matches the
  trimmed string as a case-insensitive regular expression, newest first: every returned
  club matches, their number is the smaller of 20 and the number of matching clubs, and
  no matching club left out is newer than a returned one. When the search is absent or
  the empty string, every club is returned, newest first.
\<close>

theorem search_listing:
  "(reachable st \<and> trim s \<noteq> [] \<and> regexp_i rt (trim s) = Some m \<longrightarrow>
      (\<exists>cs. status (get_clubs rt st (Some s)) = 200 \<and>
            data_entries (get_clubs rt st (Some s))
              = map (\<lambda>c. formattedClubs_entry rt (select_public c)) cs \<and>
            mset cs \<subseteq># mset (filter (matches (OrRegex m)) (clubs st)) \<and>
            length cs = min 20 (length (filter (matches (OrRegex m)) (clubs st))) \<and>
            sorted (map (\<lambda>c. - createdAt c) cs) \<and>
            (\<forall>d \<in># mset (filter (matches (OrRegex m)) (clubs st)) - mset cs.
               \<forall>c \<in> set cs. createdAt d \<le> createdAt c))) \<and>
   (matches (OrRegex m) c \<longleftrightarrow>
      m (name c) \<or> m (school c) \<or> m (province c) \<or> (\<exists>t. city c = Some t \<and> m t)) \<and>
   (reachable st \<and> (search = None \<or> search = Some []) \<longrightarrow>
      (\<exists>cs. status (get_clubs rt st search) = 200 \<and>
            data_entries (get_clubs rt st search)
              = map (\<lambda>c. formattedClubs_entry rt (select_public c)) cs \<and>
            mset cs = mset (clubs st) \<and>
            sorted (map (\<lambda>c. - createdAt c) cs)))"
proof (intro conjI impI)
  assume a: "reachable st \<and> trim s \<noteq> [] \<and> regexp_i rt (trim s) = Some m"
  define found where "found = sort_newest_first (filter (matches (OrRegex m)) (clubs st))"
  from a have s: "s \<noteq> []" by auto
  from a have q: "build_query rt (Some s) = Inr (OrRegex m)"
    by (simp add: build_query_search)
  have sorted: "sorted (map (\<lambda>c. - createdAt c) found)"
    by (simp add: found_def sorted_sort_newest_first)
  have ms: "mset found = mset (filter (matches (OrRegex m)) (clubs st))"
    by (simp add: found_def mset_sort_newest_first)
  have "status (get_clubs rt st (Some s)) = 200"
    using get_clubs_ok(1) [OF q] a by simp
  moreover have "data_entries (get_clubs rt st (Some s))
      = map (\<lambda>c. formattedClubs_entry rt (select_public c)) (take 20 found)"
    using get_clubs_ok(2) [OF q] a s by (simp add: search_limit_present limit_def found_def)
  moreover have "mset (take 20 found) \<subseteq># mset (filter (matches (OrRegex m)) (clubs st))"
    by (rule mset_minus_take(1) [OF ms])
  moreover have "length (take 20 found) = min 20 (length (filter (matches (OrRegex m)) (clubs st)))"
    by (simp add: found_def length_sort_newest_first min.commute)
  moreover have "sorted (map (\<lambda>c. - createdAt c) (take 20 found))"
    by (rule take_sorted_newest(1) [OF sorted])
  moreover have "\<forall>d \<in># mset (filter (matches (OrRegex m)) (clubs st)) - mset (take 20 found).
               \<forall>c \<in> set (take 20 found). createdAt d \<le> createdAt c"
    unfolding mset_minus_take(2) [OF ms] using take_sorted_newest(2) [OF sorted, of 20] by simp
  ultimately show "\<exists>cs. status (get_clubs rt st (Some s)) = 200 \<and>
            data_entries (get_clubs rt st (Some s))
              = map (\<lambda>c. formattedClubs_entry rt (select_public c)) cs \<and>
            mset cs \<subseteq># mset (filter (matches (OrRegex m)) (clubs st)) \<and>
            length cs = min 20 (length (filter (matches (OrRegex m)) (clubs st))) \<and>
            sorted (map (\<lambda>c. - createdAt c) cs) \<and>
            (\<forall>d \<in># mset (filter (matches (OrRegex m)) (clubs st)) - mset cs.
               \<forall>c \<in> set cs. createdAt d \<le> createdAt c)"
    by blast
next
  show "matches (OrRegex m) c \<longleftrightarrow>
      m (name c) \<or> m (school c) \<or> m (province c) \<or> (\<exists>t. city c = Some t \<and> m t)"
    by (rule matches_OrRegex)
next
  assume a: "reachable st \<and> (search = None \<or> search = Some [])"
  then have q: "build_query rt search = Inr MatchAll"
    by (auto simp: build_query_absent build_query_blank)
  from a have l: "search_limit search = None"
    by (auto simp: search_limit_absent)
  have all: "filter (matches MatchAll) (clubs st) = clubs st"
    by (simp add: matches_def)
  have "status (get_clubs rt st search) = 200"
    using get_clubs_ok(1) [OF q] a by simp
  moreover have "data_entries (get_clubs rt st search)
      = map (\<lambda>c. formattedClubs_entry rt (select_public c)) (sort_newest_first (clubs st))"
    using get_clubs_ok(2) [OF q] a by (simp add: l limit_def all)
  ultimately show "\<exists>cs. status (get_clubs rt st search) = 200 \<and>
            data_entries (get_clubs rt st search)
              = map (\<lambda>c. formattedClubs_entry rt (select_public c)) cs \<and>
            mset cs = mset (clubs st) \<and>
            sorted (map (\<lambda>c. - createdAt c) cs)"
    using sorted_sort_newest_first [of "clubs st"] mset_sort_newest_first [of "clubs st"]
    by blast
qed

lemma tsing_regexp:
  "regexp_i example_runtime (trim (js '' tsing '')) = Some (contains_ci (js ''tsing''))"
  by (simp add: example_runtime_def alnum_regexp_i_def trim_def js_def is_js_space_def is_alnum_def)

lemma tsing_trim: "trim (js '' tsing '') \<noteq> []"
  by (simp add: trim_def js_def is_js_space_def)

lemma tsing_matches: "matches (OrRegex (contains_ci (js ''tsing''))) tsinghua_club"
  by (simp add: matches_def tsinghua_club_def js_def lower_ascii_def)

lemma tsing_found:
  "data_entries (get_clubs example_runtime tsinghua_store (Some (js '' tsing '')))
     = [formattedClubs_entry example_runtime (select_public tsinghua_club)]"
proof -
  have q: "build_query example_runtime (Some (js '' tsing '')) = Inr (OrRegex (contains_ci (js ''tsing'')))"
    using tsing_trim tsing_regexp by (rule build_query_search)
  have r: "reachable tsinghua_store" by (simp add: tsinghua_store_def)
  have n: "js '' tsing '' \<noteq> []" by (simp add: js_def)
  show ?thesis
    unfolding get_clubs_ok(2) [OF q r]
    by (simp add: search_limit_present [OF n] limit_def sort_newest_first_def tsinghua_store_def tsing_matches)
qed

text \<open>Searching the scenario store for " tsing " finds the scenario record by its school.\<close>

theorem search_listing_witness:
  "reachable tsinghua_store \<and> trim (js '' tsing '') \<noteq> [] \<and>
   regexp_i example_runtime (trim (js '' tsing '')) = Some (contains_ci (js ''tsing'')) \<and>
   matches (OrRegex (contains_ci (js ''tsing''))) tsinghua_club \<and>
   status (get_clubs example_runtime tsinghua_store (Some (js '' tsing ''))) = 200 \<and>
   data_entries (get_clubs example_runtime tsinghua_store (Some (js '' tsing '')))
     = [formattedClubs_entry example_runtime (select_public tsinghua_club)] \<and>
   status (get_clubs example_runtime tsinghua_store None) = 200"
proof -
  have r: "reachable tsinghua_store" by (simp add: tsinghua_store_def)
  show ?thesis
    using r tsing_trim tsing_regexp tsing_matches tsing_found
      search_listing [of tsinghua_store "js '' tsing ''" example_runtime "contains_ci (js ''tsing'')"
        tsinghua_club None]
    by simp
qed

lemma crowded_all_match:
  "filter (matches (OrRegex (contains_ci (js ''a'')))) (clubs crowded_store) = clubs crowded_store"
  by (simp add: crowded_store_def matches_def js_def lower_ascii_def)

lemma crowded_length: "length (clubs crowded_store) = 21"
  by (simp add: crowded_store_def)

lemma a_regexp: "regexp_i example_runtime (trim (js ''a'')) = Some (contains_ci (js ''a''))"
  by (simp add: example_runtime_def alnum_regexp_i_def trim_def js_def is_js_space_def is_alnum_def)

text \<open>
  Claim C4 as stated fails: of 21 clubs that all match the search "a" only 20 are
  returned, and a blank search " " returns 20 of the 21 clubs as well.
\<close>

theorem search_listing_counterexample:
  "length (clubs crowded_store) = 21 \<and>
   regexp_i example_runtime (trim (js ''a'')) = Some (contains_ci (js ''a'')) \<and>
   filter (matches (OrRegex (contains_ci (js ''a'')))) (clubs crowded_store) = clubs crowded_store \<and>
   length (data_entries (get_clubs example_runtime crowded_store (Some (js ''a'')))) = 20 \<and>
   trim (js '' '') = [] \<and>
   length (data_entries (get_clubs example_runtime crowded_store (Some (js '' '')))) = 20"
proof -
  have r: "reachable crowded_store" by (simp add: crowded_store_def)
  have t: "trim (js ''a'') \<noteq> []" "trim (js '' '') = []"
    by (simp_all add: trim_def js_def is_js_space_def)
  have n: "js ''a'' \<noteq> []" "js '' '' \<noteq> []" by (simp_all add: js_def)
  have q1: "build_query example_runtime (Some (js ''a'')) = Inr (OrRegex (contains_ci (js ''a'')))"
    using t(1) a_regexp by (rule build_query_search)
  have q2: "build_query example_runtime (Some (js '' '')) = Inr MatchAll"
    using t(2) by (rule build_query_blank)
  have all: "filter (matches MatchAll) (clubs crowded_store) = clubs crowded_store"
    by (simp add: matches_def)
  have "length (data_entries (get_clubs example_runtime crowded_store (Some (js ''a'')))) = 20"
    unfolding get_clubs_ok(2) [OF q1 r]
    by (simp add: search_limit_present [OF n(1)] limit_def crowded_all_match
        length_sort_newest_first crowded_length)
  moreover have "length (data_entries (get_clubs example_runtime crowded_store (Some (js '' '')))) = 20"
    unfolding get_clubs_ok(2) [OF q2 r]
    by (simp add: search_limit_present [OF n(2)] limit_def all
        length_sort_newest_first crowded_length)
  ultimately show ?thesis
    using t(2) a_regexp crowded_all_match crowded_length by simp
qed

section \<open>Properties of the submission form\<close>

lemma validateCoordinates_error:
  "isl (validateCoordinates lat lng) \<longleftrightarrow>
     \<not> is_number_in lat (- 90) 90 \<or> \<not> is_number_in lng (- 180) 180"
  by (cases lat; cases lng)
     (auto simp: validateCoordinates_def is_number_in_def num_lt_def num_gt_def)

lemma validateCoordinates_ok:
  "validateCoordinates lat lng = Inr () \<longleftrightarrow>
     is_number_in lat (- 90) 90 \<and> is_number_in lng (- 180) 180"
  using validateCoordinates_error [of lat lng]
  by (cases "validateCoordinates lat lng") auto

lemma submit_payload_coordinates:
  assumes "submit_payload parseFloat f = Inr p"
  shows "latitude p = parseFloat (trim (latitudeInput f))"
    and "longitude p = parseFloat (trim (longitudeInput f))"
    and "validateCoordinates (latitude p) (longitude p) = Inr ()"
  using assms
  by (auto simp: submit_payload_def Let_def split: if_splits sum.splits)

text \<open>
  Claim C6. \<open>validateCoordinates\<close> raises an error exactly when the latitude is not
  a number in [-90, 90] or the longitude is not a number in [-180, 180], and a payload
  the submit handler builds carries the parsed pair, which has passed that check.
\<close>

theorem coordinates_validated:
  "(isl (validateCoordinates lat lng) \<longleftrightarrow>
      \<not> is_number_in lat (- 90) 90 \<or> \<not> is_number_in lng (- 180) 180) \<and>
   (submit_payload parseFloat f = Inr p \<longrightarrow>
      latitude p = parseFloat (trim (latitudeInput f)) \<and>
      longitude p = parseFloat (trim (longitudeInput f)) \<and>
      validateCoordinates (latitude p) (longitude p) = Inr () \<and>
      is_number_in (latitude p) (- 90) 90 \<and> is_number_in (longitude p) (- 180) 180)"
  using submit_payload_coordinates [of parseFloat f p]
  by (auto simp: validateCoordinates_error simp flip: validateCoordinates_ok)

lemma example_tags:
  "parseTags (tagsInput example_form) = Inr [js ''Unity'', js ''Godot'', js ''2D'']"
  by (simp add: example_form_def parseTags_def trim_def js_def is_js_space_def is_tag_sep_def)

lemma example_numbers:
  "integer_parseFloat (trim (latitudeInput example_form)) = Fin 40"
  "integer_parseFloat (trim (longitudeInput example_form)) = Fin 116"
  by (simp_all add: example_form_def integer_parseFloat_def trim_def js_def is_js_space_def
      decimal_digit_def)

lemma example_submit: "submit_payload integer_parseFloat example_form = Inr example_payload"
proof -
  have v: "validateCoordinates (Fin 40) (Fin 116) = Inr ()"
    by (simp add: validateCoordinates_def num_lt_def num_gt_def)
  show ?thesis
    unfolding submit_payload_def Let_def example_numbers v example_tags
    by (simp add: example_form_def example_payload_def trim_def js_def is_js_space_def
        collectLinks_def)
qed

text \<open>
  The example form gives the payload with (40, 116); latitude 91, longitude NaN and
  longitude -181 are refused, the corner (-90, 180) is accepted.
\<close>

theorem coordinates_validated_witness:
  "submit_payload integer_parseFloat example_form = Inr example_payload \<and>
   latitude example_payload = Fin 40 \<and> longitude example_payload = Fin 116 \<and>
   is_number_in (Fin 40) (- 90) 90 \<and> is_number_in (Fin 116) (- 180) 180 \<and>
   isl (validateCoordinates (Fin 91) (Fin 0)) \<and> isl (validateCoordinates (Fin 0) NaN) \<and>
   isl (validateCoordinates (Fin 0) (Fin (- 181))) \<and> \<not> isl (validateCoordinates (Fin (- 90)) (Fin 180))"
  using example_submit
    coordinates_validated [of "Fin 40" "Fin 116" integer_parseFloat example_form example_payload]
    coordinates_validated [of "Fin 91" "Fin 0" integer_parseFloat example_form example_payload]
    coordinates_validated [of "Fin 0" NaN integer_parseFloat example_form example_payload]
    coordinates_validated [of "Fin 0" "Fin (- 181)" integer_parseFloat example_form example_payload]
    coordinates_validated [of "Fin (- 90)" "Fin 180" integer_parseFloat example_form example_payload]
  by (simp add: example_payload_def is_number_in_def)

lemma split_not_Nil [simp]: "split sep s \<noteq> []"
  by (induction s) (auto split: list.splits)

lemma split_no_separator: "\<forall>w\<in>set (split sep s). \<forall>u\<in>set w. \<not> sep u"
proof (induction s)
  case Nil
  then show ?case by simp
next
  case (Cons a s)
  obtain x xs where x: "split sep s = x # xs"
    by (cases "split sep s") simp_all
  with Cons show ?case by auto
qed

lemma concat_split: "concat (split sep s) = filter (\<lambda>u. \<not> sep u) s"
  by (induction s) (auto split: list.splits)

lemma length_split: "length (split sep s) = Suc (length (filter sep s))"
  by (induction s) (auto split: list.splits)

lemma last_dropWhile: "dropWhile P xs \<noteq> [] \<Longrightarrow> last (dropWhile P xs) = last xs"
  by (induction xs) (auto split: if_splits)

lemma trim_ends:
  assumes "trim s \<noteq> []"
  shows "\<not> is_js_space (hd (trim s))" and "\<not> is_js_space (last (trim s))"
proof -
  let ?d = "dropWhile is_js_space s"
  let ?e = "dropWhile is_js_space (rev ?d)"
  from assms have e: "?e \<noteq> []" by (simp add: trim_def)
  have d: "?d \<noteq> []"
  proof
    assume n: "?d = []"
    have "?e = []" unfolding n by simp
    with e show False by contradiction
  qed
  have "last (trim s) = hd ?e"
    using e by (simp add: trim_def last_rev)
  then show "\<not> is_js_space (last (trim s))"
    using hd_dropWhile [OF e] by simp
  have "hd (trim s) = last ?e"
    using e by (simp add: trim_def hd_rev)
  also have "\<dots> = last (rev ?d)"
    using e by (rule last_dropWhile)
  also have "\<dots> = hd ?d"
    using d by (simp add: last_rev)
  finally show "\<not> is_js_space (hd (trim s))"
    using hd_dropWhile [OF d] by simp
qed

lemma set_trim: "set (trim s) \<subseteq> set s"
proof
  fix u
  assume "u \<in> set (trim s)"
  then have "u \<in> set (dropWhile is_js_space (rev (dropWhile is_js_space s)))"
    by (simp add: trim_def)
  then have "u \<in> set (rev (dropWhile is_js_space s))"
    by (rule set_dropWhileD)
  then have "u \<in> set (dropWhile is_js_space s)"
    by simp
  then show "u \<in> set s"
    by (rule set_dropWhileD)
qed

lemma parseTags_eq:
  "parseTags raw =
     (if 10 < length (filter (\<lambda>t. t \<noteq> []) (map trim (split is_tag_sep raw)))
      then Inl TooManyTags
      else Inr (filter (\<lambda>t. t \<noteq> []) (map trim (split is_tag_sep raw))))"
  by (cases "raw = []") (simp_all add: parseTags_def Let_def trim_def)

text \<open>
  Claim C7, amended. \<open>parseTags\<close> yields the non-empty trimmed pieces of the input
  split at commas, fullwidth commas and line feeds, and fails exactly when there are more
  than 10 of them; a returned tag is non-empty, starts and ends with no white space and
  contains no separator. The pieces are those of the input: they contain no separator,
  there is one more piece than separators, and together they are the input without its
  separators. No limit on the length of a tag is enforced.
\<close>

theorem parseTags_result:
  "(parseTags raw = Inl TooManyTags \<longleftrightarrow>
      10 < length (filter (\<lambda>t. t \<noteq> []) (map trim (split is_tag_sep raw)))) \<and>
   (parseTags raw = Inl e \<longrightarrow> e = TooManyTags) \<and>
   (parseTags raw = Inr ts \<longrightarrow>
      ts = filter (\<lambda>t. t \<noteq> []) (map trim (split is_tag_sep raw)) \<and>
      length ts \<le> 10 \<and>
      (\<forall>t\<in>set ts. t \<noteq> [] \<and> \<not> is_js_space (hd t) \<and> \<not> is_js_space (last t) \<and>
         (\<forall>u\<in>set t. \<not> is_tag_sep u))) \<and>
   concat (split is_tag_sep raw) = filter (\<lambda>u. \<not> is_tag_sep u) raw \<and>
   length (split is_tag_sep raw) = Suc (length (filter is_tag_sep raw)) \<and>
   (\<forall>w\<in>set (split is_tag_sep raw). \<forall>u\<in>set w. \<not> is_tag_sep u)"
proof -
  define found where "found = filter (\<lambda>t. t \<noteq> []) (map trim (split is_tag_sep raw))"
  have eq: "parseTags raw = (if 10 < length found then Inl TooManyTags else Inr found)"
    unfolding found_def by (rule parseTags_eq)
  have tags: "t \<noteq> [] \<and> \<not> is_js_space (hd t) \<and> \<not> is_js_space (last t) \<and>
      (\<forall>u\<in>set t. \<not> is_tag_sep u)" if "t \<in> set found" for t
  proof -
    from that obtain w where w: "w \<in> set (split is_tag_sep raw)" and t: "t = trim w" and n: "t \<noteq> []"
      by (auto simp: found_def)
    have "\<forall>u\<in>set t. \<not> is_tag_sep u"
      using split_no_separator [of is_tag_sep raw] w set_trim [of w] t by blast
    with trim_ends [of w] t n show ?thesis by simp
  qed
  have "parseTags raw = Inl TooManyTags \<longleftrightarrow> 10 < length found"
    by (simp add: eq)
  moreover have "parseTags raw = Inl e \<longrightarrow> e = TooManyTags"
    by (simp add: eq)
  moreover have "parseTags raw = Inr ts \<longrightarrow>
      ts = found \<and> length ts \<le> 10 \<and>
      (\<forall>t\<in>set ts. t \<noteq> [] \<and> \<not> is_js_space (hd t) \<and> \<not> is_js_space (last t) \<and>
         (\<forall>u\<in>set t. \<not> is_tag_sep u))"
    using tags by (auto simp: eq)
  ultimately show ?thesis
    unfolding found_def
    using concat_split [of is_tag_sep raw] length_split [of is_tag_sep raw]
      split_no_separator [of is_tag_sep raw]
    by blast
qed

lemma eleven_tags: "parseTags (js ''a,b,c,d,e,f,g,h,i,j,k'') = Inl TooManyTags"
  by (simp add: parseTags_def trim_def js_def is_js_space_def is_tag_sep_def)

text \<open>The tags of the example form are parsed into three tags; eleven tags are refused.\<close>

theorem parseTags_result_witness:
  "parseTags (tagsInput example_form) = Inr [js ''Unity'', js ''Godot'', js ''2D''] \<and>
   parseTags (js ''a,b,c,d,e,f,g,h,i,j,k'') = Inl TooManyTags \<and>
   10 < length (filter (\<lambda>t. t \<noteq> []) (map trim (split is_tag_sep (js ''a,b,c,d,e,f,g,h,i,j,k'')))) \<and>
   [js ''Unity'', js ''Godot'', js ''2D'']
     = filter (\<lambda>t. t \<noteq> []) (map trim (split is_tag_sep (tagsInput example_form)))"
  using example_tags eleven_tags
    parseTags_result [of "tagsInput example_form" TooManyTags "[js ''Unity'', js ''Godot'', js ''2D'']"]
    parseTags_result [of "js ''a,b,c,d,e,f,g,h,i,j,k''" TooManyTags "[]"]
  by simp

text \<open>
  Claim C7 as stated fails: a single tag of 25 code units, longer than the 20 the API
  reference allows, is returned as it is.
\<close>

theorem tag_length_counterexample:
  "parseTags (js ''aaaaaaaaaaaaaaaaaaaaaaaaa'') = Inr [js ''aaaaaaaaaaaaaaaaaaaaaaaaa''] \<and>
   length (js ''aaaaaaaaaaaaaaaaaaaaaaaaa'') = 25"
  by (simp add: parseTags_def trim_def js_def is_js_space_def is_tag_sep_def)

section \<open>Properties of approval and rebuild\<close>

text \<open>
  Claim C3. For a submission whose status is APPROVED or REJECTED, \<open>approve\<close> fails
  with INVALID_STATUS carrying that status, and so does \<open>reject\<close> with a reason; a
  failed call changes nothing: the state returned is the state given, with the same
  Published Records, submissions, snapshot and count of triggered rebuilds.
\<close>

theorem terminal_transition_fails:
  "getSubmission sys sid = Some s \<and> (current_status s = APPROVED \<or> current_status s = REJECTED) \<longrightarrow>
     approve sys sid actor new_id now = (Inl (INVALID_STATUS (current_status s)), sys) \<and>
     (reason \<noteq> [] \<longrightarrow>
        reject sys sid actor reason now = (Inl (INVALID_STATUS (current_status s)), sys)) \<and>
     snd (reject sys sid actor reason now) = sys \<and>
     published (snd (approve sys sid actor new_id now)) = published sys \<and>
     submissions (snd (approve sys sid actor new_id now)) = submissions sys \<and>
     snapshot (snd (approve sys sid actor new_id now)) = snapshot sys \<and>
     triggered (snd (approve sys sid actor new_id now)) = triggered sys"
  by (auto simp: approve_def reject_def)

text \<open>
  Approving or rejecting the approved submission again fails with INVALID_STATUS
  APPROVED and leaves the one Published Record.
\<close>

theorem terminal_transition_fails_witness:
  "getSubmission example_system ''s1'' = Some approved_submission \<and>
   current_status approved_submission = APPROVED \<and>
   approve example_system ''s1'' ''admin2'' ''r2'' 20 = (Inl (INVALID_STATUS APPROVED), example_system) \<and>
   reject example_system ''s1'' ''admin2'' (js ''late'') 20 = (Inl (INVALID_STATUS APPROVED), example_system) \<and>
   published (snd (approve example_system ''s1'' ''admin2'' ''r2'' 20)) = [example_record]"
proof -
  have g: "getSubmission example_system ''s1'' = Some approved_submission"
    by (simp add: getSubmission_def example_system_def approved_submission_def)
  have c: "current_status approved_submission = APPROVED"
    by (simp add: approved_submission_def)
  have r: "js ''late'' \<noteq> []" by (simp add: js_def)
  have p: "published example_system = [example_record]"
    by (simp add: example_system_def)
  show ?thesis
    using g c r p
      terminal_transition_fails [of example_system "''s1''" approved_submission "''admin2''" "''r2''" 20
        "js ''late''"]
    by simp
qed

text \<open>
  Claim C9. \<open>rebuild\<close> run twice in a row writes the same snapshot both times: it
  leaves the Published Records as they are, and the snapshot it writes is determined by
  them alone, whatever the snapshot, the backup and the earlier runs were.
\<close>

theorem rebuild_idempotent:
  "snapshot (rebuild encode (rebuild encode sys)) = snapshot (rebuild encode sys) \<and>
   published (rebuild encode sys) = published sys \<and>
   submissions (rebuild encode sys) = submissions sys \<and>
   snapshot (rebuild encode sys) = Some (encode (map project (published sys))) \<and>
   (published sys' = published sys \<longrightarrow> snapshot (rebuild encode sys') = snapshot (rebuild encode sys))"
  by (simp add: rebuild_def)

text \<open>
  Rebuilding the example system once, twice, or from another earlier snapshot gives the
  same three bytes; the scenario record is projected to (116.3267, 39.9995).
\<close>

theorem rebuild_idempotent_witness:
  "published (example_system\<lparr>snapshot := Some [1, 2, 3]\<rparr>) = published example_system \<and>
   snapshot (rebuild example_encode (example_system\<lparr>snapshot := Some [1, 2, 3]\<rparr>))
     = snapshot (rebuild example_encode example_system) \<and>
   snapshot (rebuild example_encode (rebuild example_encode example_system))
     = snapshot (rebuild example_encode example_system) \<and>
   snapshot (rebuild example_encode example_system) = Some [0x72, 0x31, 0x0A] \<and>
   entry_coordinates (project example_record) = (116.3267, 39.9995)"
proof -
  have p: "published (example_system\<lparr>snapshot := Some [1, 2, 3]\<rparr>) = published example_system"
    by simp
  have s: "example_encode (map project (published example_system)) = [0x72, 0x31, 0x0A]"
    by (simp add: example_encode_def example_system_def project_def example_record_def)
  have c: "entry_coordinates (project example_record) = (116.3267, 39.9995)"
    by (simp add: project_def example_record_def example_fields_def)
  show ?thesis
    using p c s
      rebuild_idempotent [of example_encode example_system "example_system\<lparr>snapshot := Some [1, 2, 3]\<rparr>"]
    by simp
qed

end
